theory Spec2Isabelle
  imports Complex_Main "HOL-Library.Sublist"
begin

section \<open>Text formatting\<close>

text \<open>
  The session formats its counters with \<^verbatim>\<open>'%d' % n\<close> (and \<^verbatim>\<open>'{}'.format(n)\<close>):
  the decimal numeral of a Python integer, with a leading minus sign below zero.
\<close>

definition digit :: "nat \<Rightarrow> char" where
  "digit d = ''0123456789'' ! d"

fun str_nat :: "nat \<Rightarrow> string" where
  "str_nat n = (if n < 10 then [digit n] else str_nat (n div 10) @ [digit (n mod 10)])"

declare str_nat.simps [simp del]

definition fmt_d :: "int \<Rightarrow> string" where
  "fmt_d i = (if i < 0 then CHR ''-'' # str_nat (nat (- i)) else str_nat (nat i))"

text \<open>\<^verbatim>\<open>sep.join(xs)\<close>.\<close>

fun join :: "string \<Rightarrow> string list \<Rightarrow> string" where
  "join sep [] = []"
| "join sep [x] = x"
| "join sep (x # y # ys) = x @ sep @ join sep (y # ys)"

text \<open>\<^verbatim>\<open>s.startswith(k)\<close>, used to tell the kinds of statement apart.\<close>

fun startswith :: "string \<Rightarrow> string \<Rightarrow> bool" where
  "startswith [] s = True"
| "startswith (k # ks) [] = False"
| "startswith (k # ks) (c # cs) = (k = c \<and> startswith ks cs)"

definition newline :: char where
  "newline = CHR 0x0A"

definition dquote :: char where
  "dquote = CHR 0x22"

text \<open>\<^verbatim>\<open>s.endswith('\n')\<close>: false on the empty text.\<close>

definition ends_in_newline :: "string \<Rightarrow> bool" where
  "ends_in_newline t = (case rev t of [] \<Rightarrow> False | c # cs \<Rightarrow> c = newline)"

section \<open>Entities\<close>

text \<open>
  The entity classes (\<^verbatim>\<open>Point\<close>, \<^verbatim>\<open>Line\<close>, \<^verbatim>\<open>LineLoop\<close>, \<^verbatim>\<open>EllipseArc\<close>,
  \<^verbatim>\<open>PlaneSurface\<close>, \<^verbatim>\<open>Circle\<close>, \<^verbatim>\<open>Dummy\<close>) are imported by \<^verbatim>\<open>geometry.py\<close> from
  sibling modules. The session reads three things of their instances: the class, the
  attribute \<^verbatim>\<open>code\<close> (the text \<^verbatim>\<open>add\<close> appends) and the attribute \<^verbatim>\<open>id\<close> (the name
  later statements embed); of a line loop also \<^verbatim>\<open>lines\<close>, of a circle \<^verbatim>\<open>line_loop\<close>
  and \<^verbatim>\<open>plane_surface\<close>.
\<close>

datatype cls = CPoint | CLine | CLineLoop | CEllipseArc | CPlaneSurface | CCircle | CDummy

record obj =
  cls :: cls
  code :: string

record entity = obj +
  id' :: string

record loop = entity +
  lines :: "entity list"

record circle = obj +
  line_loop :: loop
  plane_surface :: entity

text \<open>
  Modelled from the spec: the class \<^verbatim>\<open>Dummy\<close> is not among the sources. The spec's
  "dummy reference" is an opaque symbolic string that behaves as an entity handle: its
  \<^verbatim>\<open>id\<close> is that string, and it defines no statement of its own.
\<close>

definition Dummy :: "string \<Rightarrow> entity" where
  "Dummy name = \<lparr>cls = CDummy, code = [], id' = name\<rparr>"

type_synonym 'n vec = "'n \<times> 'n \<times> 'n"
type_synonym 'n mat = "'n vec \<times> 'n vec \<times> 'n vec"

text \<open>
  A constructor call may read and change state of its class (a class-level counter of
  instances, say), which lives outside the session object: \<open>'g\<close> is that state, and a
  constructor call is a function from it to the new object and the new state.
\<close>

type_synonym ('a, 'g) ctor = "'g \<Rightarrow> 'a \<times> 'g"

text \<open>
  What the sources do not hold is a parameter of the model: the constructors
  (\<open>*_init\<close>, total functions of the arguments the session passes), the unary minus of a
  curve, and the texts \<^verbatim>\<open>'%s' % x\<close> and \<^verbatim>\<open>'%r' % x\<close> of a number and of an entity.
  Numbers are any type \<open>'n\<close> with the arithmetic the session uses.
\<close>

record ('n, 'g) env =
  Point_init :: "'n list \<Rightarrow> 'n \<Rightarrow> (entity, 'g) ctor"
  Line_init :: "entity \<Rightarrow> entity \<Rightarrow> (entity, 'g) ctor"
  LineLoop_init :: "entity list \<Rightarrow> (loop, 'g) ctor"
  EllipseArc_init :: "entity list \<Rightarrow> (entity, 'g) ctor"
  PlaneSurface_init :: "loop \<Rightarrow> loop list option \<Rightarrow> (entity, 'g) ctor"
  Circle_init :: "'n vec \<Rightarrow> 'n \<Rightarrow> 'n \<Rightarrow> 'n mat \<Rightarrow> bool option \<Rightarrow> loop list option \<Rightarrow> (circle, 'g) ctor"
  neg_init :: "entity \<Rightarrow> (entity, 'g) ctor"
  str_num :: "'n \<Rightarrow> string"
  repr_num :: "'n \<Rightarrow> string"
  str_entity :: "entity \<Rightarrow> string"

definition Point :: "('n, 'g) env \<Rightarrow> 'n list \<Rightarrow> 'n \<Rightarrow> (entity, 'g) ctor" where
  "Point env x lcar g = (let (e, g') = Point_init env x lcar g in (e\<lparr>cls := CPoint\<rparr>, g'))"

definition Line :: "('n, 'g) env \<Rightarrow> entity \<Rightarrow> entity \<Rightarrow> (entity, 'g) ctor" where
  "Line env p q g = (let (e, g') = Line_init env p q g in (e\<lparr>cls := CLine\<rparr>, g'))"

definition EllipseArc :: "('n, 'g) env \<Rightarrow> entity list \<Rightarrow> (entity, 'g) ctor" where
  "EllipseArc env ps g = (let (e, g') = EllipseArc_init env ps g in (e\<lparr>cls := CEllipseArc\<rparr>, g'))"

definition PlaneSurface :: "('n, 'g) env \<Rightarrow> loop \<Rightarrow> loop list option \<Rightarrow> (entity, 'g) ctor" where
  "PlaneSurface env ll holes g =
     (let (e, g') = PlaneSurface_init env ll holes g in (e\<lparr>cls := CPlaneSurface\<rparr>, g'))"

definition Circle ::
  "('n, 'g) env \<Rightarrow> 'n vec \<Rightarrow> 'n \<Rightarrow> 'n \<Rightarrow> 'n mat \<Rightarrow> bool option \<Rightarrow> loop list option \<Rightarrow> (circle, 'g) ctor" where
  "Circle env x0 radius lcar R make_surface holes g =
     (let (c, g') = Circle_init env x0 radius lcar R make_surface holes g in (c\<lparr>cls := CCircle\<rparr>, g'))"

text \<open>
  The elements of a list display such as \<^verbatim>\<open>[e[0], e[3], -e[5], -e[1]]\<close> are evaluated
  from left to right; \<open>True\<close> marks an element under a unary minus.
\<close>

fun oriented :: "('n, 'g) env \<Rightarrow> (bool \<times> entity) list \<Rightarrow> (entity list, 'g) ctor" where
  "oriented env [] g = ([], g)"
| "oriented env ((m, e) # es) g =
     (let (e', g1) = (if m then neg_init env e g else (e, g));
          (es', g2) = oriented env es g1
      in (e' # es', g2))"

definition LineLoop :: "('n, 'g) env \<Rightarrow> (bool \<times> entity) list \<Rightarrow> (loop, 'g) ctor" where
  "LineLoop env curves g =
     (let (cs, g1) = oriented env curves g;
          (l, g2) = LineLoop_init env cs g1
      in (l\<lparr>cls := CLineLoop\<rparr>, g2))"

abbreviation pos :: "entity \<Rightarrow> bool \<times> entity" where
  "pos e \<equiv> (False, e)"

abbreviation neg :: "entity \<Rightarrow> bool \<times> entity" where
  "neg e \<equiv> (True, e)"

section \<open>Errors\<close>

datatype assertion =
  Illegal_input_type | Incompatible_input_type | Len_entities_gt_1 | Illegal_extrude_entity

datatype error =
  RuntimeError string | ValueError string | TypeError | IndexError | AssertionError assertion

section \<open>The session of the built-in kernel\<close>

text \<open>
  \<^verbatim>\<open>Geometry.__init__\<close> of \<^verbatim>\<open>pygmsh/geometry.py\<close>: eight counters and the statement
  log. \<open>world\<close> is the state of the entity classes (see \<open>ctor\<close>); it is no attribute of
  the session and is carried along with it so that one state is passed through.
\<close>

record 'g geometry =
  SURFACE_ID :: int
  SURFACELOOP_ID :: int
  VOLUME_ID :: int
  ELLIPSE_ID :: int
  EXTRUDE_ID :: int
  ARRAY_ID :: int
  FIELD_ID :: int
  PHYSICALGROUP_ID :: int
  GMSH_CODE :: "string list"
  world :: 'g

text \<open>\<^verbatim>\<open>__version__\<close> comes from \<^verbatim>\<open>__about__\<close>, which is not among the sources.\<close>

definition header :: "string \<Rightarrow> string" where
  "header version = ''// This code was created by PyGmsh v'' @ version @ ''.''"

definition init :: "string \<Rightarrow> 'g \<Rightarrow> 'g geometry" where
  "init version g =
     \<lparr>SURFACE_ID = 0, SURFACELOOP_ID = 0, VOLUME_ID = 0, ELLIPSE_ID = 0, EXTRUDE_ID = 0,
      ARRAY_ID = 0, FIELD_ID = 0, PHYSICALGROUP_ID = 0, GMSH_CODE = [header version],
      world = g\<rparr>"

definition get_code :: "'g geometry \<Rightarrow> string" where
  "get_code s = join [newline] (GMSH_CODE s)"

text \<open>\<^verbatim>\<open>self._GMSH_CODE.append(line)\<close>.\<close>

definition append :: "string \<Rightarrow> 'g geometry \<Rightarrow> 'g geometry" where
  "append line s = s\<lparr>GMSH_CODE := GMSH_CODE s @ [line]\<rparr>"

definition add :: "('a obj_scheme) \<Rightarrow> 'g geometry \<Rightarrow> ('a obj_scheme) \<times> 'g geometry" where
  "add entity s = (entity, append (code entity) s)"

text \<open>\<^verbatim>\<open>self.add(C(...))\<close>: the constructor runs, then its result is added.\<close>

definition add_new :: "('a obj_scheme, 'g) ctor \<Rightarrow> 'g geometry \<Rightarrow> ('a obj_scheme) \<times> 'g geometry" where
  "add_new c s = (let (x, g) = c (world s) in add x (s\<lparr>world := g\<rparr>))"

text \<open>A list display or comprehension of such calls, evaluated from left to right.\<close>

fun add_all :: "('a obj_scheme, 'g) ctor list \<Rightarrow> 'g geometry \<Rightarrow> ('a obj_scheme) list \<times> 'g geometry" where
  "add_all [] s = ([], s)"
| "add_all (c # cs) s =
     (let (x, s1) = add_new c s;
          (xs, s2) = add_all cs s1
      in (x # xs, s2))"

text \<open>\<^verbatim>\<open>[f(a) for a in as]\<close> for a method \<open>f\<close> of the session.\<close>

fun for_each :: "('a \<Rightarrow> 's \<Rightarrow> 'r \<times> 's) \<Rightarrow> 'a list \<Rightarrow> 's \<Rightarrow> 'r list \<times> 's" where
  "for_each f [] s = ([], s)"
| "for_each f (a # as) s =
     (let (r, s1) = f a s;
          (rs, s2) = for_each f as s1
      in (r # rs, s2))"

definition add_ruled_surface :: "('a entity_scheme) \<Rightarrow> 'g geometry \<Rightarrow> entity \<times> 'g geometry" where
  "add_ruled_surface lloop s =
     (let s1 = s\<lparr>SURFACE_ID := SURFACE_ID s + 1\<rparr>;
          sname = ''surf'' @ fmt_d (SURFACE_ID s1);
          s2 = append (sname @ '' = news;'') s1;
          s3 = append (''Ruled Surface('' @ sname @ '') = {'' @ id' lloop @ ''};'') s2
      in (Dummy sname, s3))"

definition add_compound_surface :: "('a entity_scheme) list \<Rightarrow> 'g geometry \<Rightarrow> entity \<times> 'g geometry" where
  "add_compound_surface surfaces s =
     (let s1 = s\<lparr>SURFACE_ID := SURFACE_ID s + 1\<rparr>;
          name = ''surf'' @ fmt_d (SURFACE_ID s1);
          s2 = append (name @ '' = news;'') s1;
          s3 = append (''Compound Surface('' @ name @ '') = {'' @ join '','' (map id' surfaces) @ ''};'') s2
      in (Dummy name, s3))"

definition add_surface_loop :: "('a entity_scheme) list \<Rightarrow> 'g geometry \<Rightarrow> string \<times> 'g geometry" where
  "add_surface_loop surfaces s =
     (let s1 = s\<lparr>SURFACELOOP_ID := SURFACELOOP_ID s + 1\<rparr>;
          name = ''surfloop'' @ fmt_d (SURFACELOOP_ID s1);
          s2 = append (name @ '' = newsl;'') s1;
          s3 = append (''Surface Loop('' @ name @ '') = {'' @ join '','' (map id' surfaces) @ ''};'') s2
      in (name, s3))"

definition add_volume :: "string \<Rightarrow> 'g geometry \<Rightarrow> string \<times> 'g geometry" where
  "add_volume surface_loop s =
     (let s1 = s\<lparr>VOLUME_ID := VOLUME_ID s + 1\<rparr>;
          name = ''vol'' @ fmt_d (VOLUME_ID s1);
          s2 = append (name @ '' = newv;'') s1;
          s3 = append (''Volume('' @ name @ '') = '' @ surface_loop @ '';'') s2
      in (name, s3))"

definition add_compound_volume :: "('a entity_scheme) list \<Rightarrow> 'g geometry \<Rightarrow> string \<times> 'g geometry" where
  "add_compound_volume volumes s =
     (let s1 = s\<lparr>VOLUME_ID := VOLUME_ID s + 1\<rparr>;
          name = ''cv'' @ fmt_d (VOLUME_ID s1);
          s2 = append (name @ '' = newv;'') s1;
          s3 = append (''Compound Volume('' @ name @ '') = {'' @ join '','' (map id' volumes) @ ''};'') s2
      in (name, s3))"

definition new_physical_group :: "string option \<Rightarrow> 'g geometry \<Rightarrow> string \<times> 'g geometry" where
  "new_physical_group label s =
     (let s1 = s\<lparr>PHYSICALGROUP_ID := PHYSICALGROUP_ID s + 1\<rparr>
      in (case label of
            None \<Rightarrow> (fmt_d (PHYSICALGROUP_ID s1), s1)
          | Some l \<Rightarrow> ([dquote] @ l @ [dquote], s1)))"

text \<open>
  The entity of a physical group is formatted with \<^verbatim>\<open>%s\<close>: the callers in the session
  pass a name (a string) or an entity object.
\<close>

datatype handle = Name string | Obj entity

definition str_handle :: "('n, 'g) env \<Rightarrow> handle \<Rightarrow> string" where
  "str_handle env h = (case h of Name n \<Rightarrow> n | Obj e \<Rightarrow> str_entity env e)"

definition add_physical_point :: "('n, 'g) env \<Rightarrow> handle \<Rightarrow> string option \<Rightarrow> 'g geometry \<Rightarrow> unit \<times> 'g geometry" where
  "add_physical_point env point label s =
     (let (label', s1) = new_physical_group label s
      in ((), append (''Physical Point('' @ label' @ '') = '' @ str_handle env point @ '';'') s1))"

definition add_physical_line :: "('n, 'g) env \<Rightarrow> handle \<Rightarrow> string option \<Rightarrow> 'g geometry \<Rightarrow> unit \<times> 'g geometry" where
  "add_physical_line env line label s =
     (let (label', s1) = new_physical_group label s
      in ((), append (''Physical Line('' @ label' @ '') = '' @ str_handle env line @ '';'') s1))"

definition add_physical_surface :: "('n, 'g) env \<Rightarrow> handle \<Rightarrow> string option \<Rightarrow> 'g geometry \<Rightarrow> unit \<times> 'g geometry" where
  "add_physical_surface env surface label s =
     (let (label', s1) = new_physical_group label s
      in ((), append (''Physical Surface('' @ label' @ '') = '' @ str_handle env surface @ '';'') s1))"

definition add_physical_volume :: "('n, 'g) env \<Rightarrow> handle \<Rightarrow> string option \<Rightarrow> 'g geometry \<Rightarrow> unit \<times> 'g geometry" where
  "add_physical_volume env volume label s =
     (let (label', s1) = new_physical_group label s
      in ((), append (''Physical Volume('' @ label' @ '') = '' @ str_handle env volume @ '';'') s1))"

subsection \<open>Extrusion\<close>

text \<open>
  \<^verbatim>\<open>extrude\<close> takes a string or an entity (\<^verbatim>\<open>isinstance(entity, str)\<close>), three optional
  vectors and an angle, which the torus passes as the text \<^verbatim>\<open>'2*Pi/3'\<close> and which is
  formatted with \<^verbatim>\<open>%s\<close> whatever it is (\<^verbatim>\<open>None\<close> included). The axes are vectors of three
  components: a sequence of another length is outside the type. \<^verbatim>\<open>tuple(point_on_axis)\<close>
  raises \<^verbatim>\<open>TypeError\<close> on \<^verbatim>\<open>None\<close>.
\<close>

datatype source = Str string | Ent entity

datatype 'n val = Num 'n | Text string | NoneVal

definition str_val :: "('n, 'g) env \<Rightarrow> 'n val \<Rightarrow> string" where
  "str_val env v = (case v of Num x \<Rightarrow> str_num env x | Text t \<Rightarrow> t | NoneVal \<Rightarrow> ''None'')"

definition triple :: "('n, 'g) env \<Rightarrow> 'n vec \<Rightarrow> string" where
  "triple env v = (case v of (a, b, c) \<Rightarrow> str_num env a @ '','' @ str_num env b @ '','' @ str_num env c)"

definition extrude ::
  "('n, 'g) env \<Rightarrow> source \<Rightarrow> 'n vec option \<Rightarrow> 'n vec option \<Rightarrow> 'n vec option \<Rightarrow> 'n val \<Rightarrow>
     'g geometry \<Rightarrow> (error + entity \<times> entity) \<times> 'g geometry" where
  "extrude env entity translation_axis rotation_axis point_on_axis angle s =
     (let s1 = s\<lparr>EXTRUDE_ID := EXTRUDE_ID s + 1\<rparr>;
          entity' = (case entity of Str x \<Rightarrow> Dummy x | Ent e \<Rightarrow> e);
          name = ''ex'' @ fmt_d (EXTRUDE_ID s1);
          top' = Dummy (name @ ''[0]'');
          extruded = Dummy (name @ ''[1]'')
      in case (translation_axis, rotation_axis) of
           (Some t, Some r) \<Rightarrow>
             (case point_on_axis of
                None \<Rightarrow> (Inl TypeError, s1)
              | Some p \<Rightarrow>
                  (Inr (top', extruded),
                   append (name @ ''[] = Extrude{{'' @ triple env t @ ''}, {'' @ triple env r @ ''}, {''
                     @ triple env p @ ''}, '' @ str_val env angle @ ''}{'' @ id' entity' @ '';};'') s1))
         | (Some t, None) \<Rightarrow>
             (Inr (top', extruded),
              append (name @ ''[] = Extrude{'' @ triple env t @ ''}{'' @ id' entity' @ '';};'') s1)
         | (None, Some r) \<Rightarrow>
             (case point_on_axis of
                None \<Rightarrow> (Inl TypeError, s1)
              | Some p \<Rightarrow>
                  (Inr (top', extruded),
                   append (name @ ''[] = Extrude{{'' @ triple env r @ ''}, {'' @ triple env p @ ''}, ''
                     @ str_val env angle @ ''}{'' @ id' entity' @ '';};'') s1))
         | (None, None) \<Rightarrow>
             (Inl (RuntimeError ''Specify at least translation or rotation.''), s1))"

subsection \<open>Fields, arrays, comments, raw code\<close>

text \<open>\<^verbatim>\<open>if x:\<close> on an optional number: \<^verbatim>\<open>None\<close> and zero are false.\<close>

definition append_truthy :: "'n::zero option \<Rightarrow> ('n \<Rightarrow> string) \<Rightarrow> 'g geometry \<Rightarrow> 'g geometry" where
  "append_truthy v line s = (case v of None \<Rightarrow> s | Some x \<Rightarrow> if x = 0 then s else append (line x) s)"

definition or_empty :: "'a list option \<Rightarrow> 'a list" where
  "or_empty l = (case l of None \<Rightarrow> [] | Some xs \<Rightarrow> xs)"

definition append_if :: "bool \<Rightarrow> string \<Rightarrow> 'g geometry \<Rightarrow> 'g geometry" where
  "append_if b line s = (if b then append line s else s)"

definition add_boundary_layer ::
  "('n::zero, 'g) env \<Rightarrow> entity list option \<Rightarrow> string list option \<Rightarrow> entity list option \<Rightarrow>
     'n option \<Rightarrow> 'n option \<Rightarrow> 'n option \<Rightarrow> 'n option \<Rightarrow> 'n option \<Rightarrow> 'n option \<Rightarrow>
     'g geometry \<Rightarrow> string \<times> 'g geometry" where
  "add_boundary_layer env edges_list faces_list nodes_list anisomax hfar hwall_n hwall_t ratio thickness s =
     (let edges = or_empty edges_list;
          faces = or_empty faces_list;
          nodes = or_empty nodes_list;
          s1 = s\<lparr>FIELD_ID := FIELD_ID s + 1\<rparr>;
          name = ''field'' @ fmt_d (FIELD_ID s1);
          s2 = append (name @ '' = newf;'') s1;
          s3 = append (''Field['' @ name @ ''] = BoundaryLayer;'') s2;
          s4 = append_if (edges \<noteq> [])
                 (''Field['' @ name @ ''].EdgesList = {'' @ join '','' (map id' edges) @ ''};'') s3;
          s5 = append_if (faces \<noteq> [])
                 (''Field['' @ name @ ''].FacesList = {'' @ join '','' faces @ ''};'') s4;
          s6 = append_if (nodes \<noteq> [])
                 (''Field['' @ name @ ''].NodesList = {'' @ join '','' (map id' nodes) @ ''};'') s5;
          s7 = append_truthy hfar
                 (\<lambda>x. ''Field['' @ name @ ''].hfar= '' @ repr_num env x @ '';'') s6;
          s8 = append_truthy hwall_t
                 (\<lambda>x. ''Field['' @ name @ ''].hwall_t= '' @ repr_num env x @ '';'') s7;
          s9 = append_truthy hwall_n
                 (\<lambda>x. ''Field['' @ name @ ''].hwall_n= '' @ repr_num env x @ '';'') s8;
          s10 = append_truthy ratio
                 (\<lambda>x. ''Field['' @ name @ ''].ratio= '' @ repr_num env x @ '';'') s9;
          s11 = append_truthy thickness
                 (\<lambda>x. ''Field['' @ name @ ''].thickness= '' @ repr_num env x @ '';'') s10;
          s12 = append_truthy anisomax
                 (\<lambda>x. ''Field['' @ name @ ''].AnisoMax= '' @ repr_num env x @ '';'') s11
      in (name, s12))"

definition add_background_field :: "string list \<Rightarrow> string \<Rightarrow> 'g geometry \<Rightarrow> string \<times> 'g geometry" where
  "add_background_field flds aggregation_type s =
     (let s1 = s\<lparr>FIELD_ID := FIELD_ID s + 1\<rparr>;
          name = ''field'' @ fmt_d (FIELD_ID s1);
          s2 = append (name @ '' = newf;'') s1;
          s3 = append (''Field['' @ name @ ''] = '' @ aggregation_type @ '';'') s2;
          s4 = append (''Field['' @ name @ ''].FieldsList = {'' @ join '', '' flds @ ''};'') s3;
          s5 = append (''Background Field = '' @ name @ '';'') s4
      in (name, s5))"

definition add_array :: "string list \<Rightarrow> 'g geometry \<Rightarrow> string \<times> 'g geometry" where
  "add_array entities s =
     (let s1 = s\<lparr>ARRAY_ID := ARRAY_ID s + 1\<rparr>;
          name = ''array'' @ fmt_d (ARRAY_ID s1);
          s2 = append (name @ ''[] = {'' @ join '','' entities @ ''};'') s1
      in (name @ ''[]'', s2))"

definition add_comment :: "string \<Rightarrow> 'g geometry \<Rightarrow> unit \<times> 'g geometry" where
  "add_comment string s = ((), append (''// '' @ string) s)"

datatype raw_code = One string | Many "string list"

definition add_raw_code :: "raw_code \<Rightarrow> 'g geometry \<Rightarrow> unit \<times> 'g geometry" where
  "add_raw_code string_or_list s =
     (case string_or_list of
        One string \<Rightarrow> ((), append string s)
      | Many strings \<Rightarrow> ((), fold append strings s))"

subsection \<open>Polygons\<close>

text \<open>
  \<^verbatim>\<open>p[-1]\<close> raises \<^verbatim>\<open>IndexError\<close> on the empty list, after the points and the lines of
  the comprehension (none, then) have been added.
\<close>

definition add_polygon_loop ::
  "('n, 'g) env \<Rightarrow> 'n list list \<Rightarrow> 'n \<Rightarrow> 'g geometry \<Rightarrow> (error + loop) \<times> 'g geometry" where
  "add_polygon_loop env X lcar s =
     (let (p, s1) = add_all (map (\<lambda>x. Point env x lcar) X) s;
          (lns, s2) = add_all (map (\<lambda>k. Line env (p ! k) (p ! (k + 1))) [0..<length p - 1]) s1
      in if p = [] then (Inl IndexError, s2)
         else (let (l, s3) = add_new (Line env (last p) (hd p)) s2;
                   (ll, s4) = add_new (LineLoop env (map pos (lns @ [l]))) s3
               in (Inr ll, s4)))"

definition add_polygon ::
  "('n, 'g) env \<Rightarrow> 'n list list \<Rightarrow> 'n \<Rightarrow> loop list option \<Rightarrow> 'g geometry \<Rightarrow> (error + entity) \<times> 'g geometry" where
  "add_polygon env X lcar holes s =
     (case add_polygon_loop env X lcar s of
        (Inl e, s1) \<Rightarrow> (Inl e, s1)
      | (Inr ll, s1) \<Rightarrow> (let (sf, s2) = add_new (PlaneSurface env ll holes) s1 in (Inr sf, s2)))"

definition add_rectangle ::
  "('n, 'g) env \<Rightarrow> 'n \<Rightarrow> 'n \<Rightarrow> 'n \<Rightarrow> 'n \<Rightarrow> 'n \<Rightarrow> 'n \<Rightarrow> loop list option \<Rightarrow> 'g geometry \<Rightarrow>
     (error + entity) \<times> 'g geometry" where
  "add_rectangle env xmin xmax ymin ymax z lcar holes s =
     add_polygon env [[xmin, ymin, z], [xmax, ymin, z], [xmax, ymax, z], [xmin, ymax, z]] lcar holes s"

subsection \<open>Ellipsoid, ball and box\<close>

text \<open>\<^verbatim>\<open>if label:\<close> and \<^verbatim>\<open>if holes:\<close>: \<^verbatim>\<open>None\<close> and the empty sequence are false.\<close>

definition nonempty :: "'a list option \<Rightarrow> bool" where
  "nonempty l = (case l of None \<Rightarrow> False | Some xs \<Rightarrow> xs \<noteq> [])"

definition ellipsoid_points ::
  "('n::{plus,minus}, 'g) env \<Rightarrow> 'n vec \<Rightarrow> 'n vec \<Rightarrow> 'n \<Rightarrow> (entity, 'g) ctor list" where
  "ellipsoid_points env x0 radii lcar =
     (case (x0, radii) of ((x, y, z), (rx, ry, rz)) \<Rightarrow>
        [Point env [x, y, z] lcar,
         Point env [x + rx, y, z] lcar,
         Point env [x, y + ry, z] lcar,
         Point env [x, y, z + rz] lcar,
         Point env [x - rx, y, z] lcar,
         Point env [x, y - ry, z] lcar,
         Point env [x, y, z - rz] lcar])"

definition ellipsoid_arcs :: "('n, 'g) env \<Rightarrow> entity list \<Rightarrow> (entity, 'g) ctor list" where
  "ellipsoid_arcs env p =
     [EllipseArc env [p ! 1, p ! 0, p ! 6, p ! 6],
      EllipseArc env [p ! 6, p ! 0, p ! 4, p ! 4],
      EllipseArc env [p ! 4, p ! 0, p ! 3, p ! 3],
      EllipseArc env [p ! 3, p ! 0, p ! 1, p ! 1],
      EllipseArc env [p ! 1, p ! 0, p ! 2, p ! 2],
      EllipseArc env [p ! 2, p ! 0, p ! 4, p ! 4],
      EllipseArc env [p ! 4, p ! 0, p ! 5, p ! 5],
      EllipseArc env [p ! 5, p ! 0, p ! 1, p ! 1],
      EllipseArc env [p ! 6, p ! 0, p ! 2, p ! 2],
      EllipseArc env [p ! 2, p ! 0, p ! 3, p ! 3],
      EllipseArc env [p ! 3, p ! 0, p ! 5, p ! 5],
      EllipseArc env [p ! 5, p ! 0, p ! 6, p ! 6]]"

definition ellipsoid_line_loops :: "('n, 'g) env \<Rightarrow> entity list \<Rightarrow> (loop, 'g) ctor list" where
  "ellipsoid_line_loops env c =
     [LineLoop env [pos (c ! 4), pos (c ! 9), pos (c ! 3)],
      LineLoop env [pos (c ! 8), neg (c ! 4), pos (c ! 0)],
      LineLoop env [neg (c ! 9), pos (c ! 5), pos (c ! 2)],
      LineLoop env [neg (c ! 5), neg (c ! 8), pos (c ! 1)],
      LineLoop env [pos (c ! 7), neg (c ! 3), pos (c ! 10)],
      LineLoop env [pos (c ! 11), neg (c ! 7), neg (c ! 0)],
      LineLoop env [neg (c ! 10), neg (c ! 2), pos (c ! 6)],
      LineLoop env [neg (c ! 1), neg (c ! 6), neg (c ! 11)]]"

definition add_ellipsoid ::
  "('n::{plus,minus}, 'g) env \<Rightarrow> 'n vec \<Rightarrow> 'n vec \<Rightarrow> 'n \<Rightarrow> bool \<Rightarrow> string list option \<Rightarrow> string option \<Rightarrow>
     'g geometry \<Rightarrow> (string option \<times> string) \<times> 'g geometry" where
  "add_ellipsoid env x0 radii lcar with_volume holes label s =
     (let holes' = or_empty holes;
          (p, s1) = add_all (ellipsoid_points env x0 radii lcar) s;
          (c, s2) = add_all (ellipsoid_arcs env p) s1;
          (ll, s3) = add_all (ellipsoid_line_loops env c) s2;
          (sf, s4) = for_each add_ruled_surface ll s3;
          (cs1, s5) = add_compound_surface (take 4 sf) s4;
          (cs2, s6) = add_compound_surface (drop 4 sf) s5;
          (sl, s7) = add_surface_loop [cs1, cs2] s6;
          (surface_loop, s8) = (if holes' \<noteq> [] then add_array ([sl] @ holes') s7 else (sl, s7))
      in if with_volume
         then (let (volume, s9) = add_volume surface_loop s8;
                   s10 = (if nonempty label
                          then snd (add_physical_volume env (Name volume) label s9) else s9)
               in ((Some volume, surface_loop), s10))
         else ((None, surface_loop), s8))"

definition add_ball ::
  "('n::{plus,minus}, 'g) env \<Rightarrow> 'n vec \<Rightarrow> 'n \<Rightarrow> 'n \<Rightarrow> bool \<Rightarrow> string list option \<Rightarrow> string option \<Rightarrow>
     'g geometry \<Rightarrow> (string option \<times> string) \<times> 'g geometry" where
  "add_ball env x0 radius lcar with_volume holes label s =
     add_ellipsoid env x0 (radius, radius, radius) lcar with_volume holes label s"

definition box_points ::
  "('n, 'g) env \<Rightarrow> 'n \<Rightarrow> 'n \<Rightarrow> 'n \<Rightarrow> 'n \<Rightarrow> 'n \<Rightarrow> 'n \<Rightarrow> 'n \<Rightarrow> (entity, 'g) ctor list" where
  "box_points env x0 x1 y0 y1 z0 z1 lcar =
     [Point env [x1, y1, z1] lcar,
      Point env [x1, y1, z0] lcar,
      Point env [x1, y0, z1] lcar,
      Point env [x1, y0, z0] lcar,
      Point env [x0, y1, z1] lcar,
      Point env [x0, y1, z0] lcar,
      Point env [x0, y0, z1] lcar,
      Point env [x0, y0, z0] lcar]"

definition box_edges :: "('n, 'g) env \<Rightarrow> entity list \<Rightarrow> (entity, 'g) ctor list" where
  "box_edges env p =
     [Line env (p ! 0) (p ! 1),
      Line env (p ! 0) (p ! 2),
      Line env (p ! 0) (p ! 4),
      Line env (p ! 1) (p ! 3),
      Line env (p ! 1) (p ! 5),
      Line env (p ! 2) (p ! 3),
      Line env (p ! 2) (p ! 6),
      Line env (p ! 3) (p ! 7),
      Line env (p ! 4) (p ! 5),
      Line env (p ! 4) (p ! 6),
      Line env (p ! 5) (p ! 7),
      Line env (p ! 6) (p ! 7)]"

definition box_line_loops :: "('n, 'g) env \<Rightarrow> entity list \<Rightarrow> (loop, 'g) ctor list" where
  "box_line_loops env e =
     [LineLoop env [pos (e ! 0), pos (e ! 3), neg (e ! 5), neg (e ! 1)],
      LineLoop env [pos (e ! 0), pos (e ! 4), neg (e ! 8), neg (e ! 2)],
      LineLoop env [pos (e ! 1), pos (e ! 6), neg (e ! 9), neg (e ! 2)],
      LineLoop env [pos (e ! 3), pos (e ! 7), neg (e ! 10), neg (e ! 4)],
      LineLoop env [pos (e ! 5), pos (e ! 7), neg (e ! 11), neg (e ! 6)],
      LineLoop env [pos (e ! 8), pos (e ! 10), neg (e ! 11), neg (e ! 9)]]"

definition add_box ::
  "('n, 'g) env \<Rightarrow> 'n \<Rightarrow> 'n \<Rightarrow> 'n \<Rightarrow> 'n \<Rightarrow> 'n \<Rightarrow> 'n \<Rightarrow> 'n \<Rightarrow> bool \<Rightarrow> string list option \<Rightarrow> string option \<Rightarrow>
     'g geometry \<Rightarrow> (string option \<times> string) \<times> 'g geometry" where
  "add_box env x0 x1 y0 y1 z0 z1 lcar with_volume holes label s =
     (let holes' = or_empty holes;
          (p, s1) = add_all (box_points env x0 x1 y0 y1 z0 z1 lcar) s;
          (e, s2) = add_all (box_edges env p) s1;
          (ll, s3) = add_all (box_line_loops env e) s2;
          (sf, s4) = for_each add_ruled_surface ll s3;
          (sl, s5) = add_surface_loop sf s4;
          (surface_loop, s6) = (if holes' \<noteq> [] then add_array ([sl] @ holes') s5 else (sl, s5))
      in if with_volume
         then (let (vol, s7) = add_volume surface_loop s6;
                   s8 = (if nonempty label
                         then snd (add_physical_volume env (Name vol) label s7) else s7)
               in ((Some vol, surface_loop), s8))
         else ((None, surface_loop), s6))"

subsection \<open>Torus and pipe\<close>

text \<open>
  \<^verbatim>\<open>numpy.dot\<close> of a matrix with a vector and with a matrix, and the sum of two arrays,
  on vectors of three components.
\<close>

definition inner :: "'n::{plus,times} vec \<Rightarrow> 'n vec \<Rightarrow> 'n" where
  "inner u v = (case (u, v) of ((a, b, c), (x, y, z)) \<Rightarrow> a * x + b * y + c * z)"

definition dot_mv :: "'n::{plus,times} mat \<Rightarrow> 'n vec \<Rightarrow> 'n vec" where
  "dot_mv A v = (case A of (r1, r2, r3) \<Rightarrow> (inner r1 v, inner r2 v, inner r3 v))"

definition column :: "nat \<Rightarrow> 'n mat \<Rightarrow> 'n vec" where
  "column j A =
     (case A of ((a1, a2, a3), (b1, b2, b3), (c1, c2, c3)) \<Rightarrow>
        if j = 0 then (a1, b1, c1) else if j = 1 then (a2, b2, c2) else (a3, b3, c3))"

definition dot_mm :: "'n::{plus,times} mat \<Rightarrow> 'n mat \<Rightarrow> 'n mat" where
  "dot_mm A B =
     (case A of (r1, r2, r3) \<Rightarrow>
        ((inner r1 (column 0 B), inner r1 (column 1 B), inner r1 (column 2 B)),
         (inner r2 (column 0 B), inner r2 (column 1 B), inner r2 (column 2 B)),
         (inner r3 (column 0 B), inner r3 (column 1 B), inner r3 (column 2 B))))"

definition vec_add :: "'n::plus vec \<Rightarrow> 'n vec \<Rightarrow> 'n vec" where
  "vec_add u v = (case (u, v) of ((a, b, c), (x, y, z)) \<Rightarrow> (a + x, b + y, c + z))"

definition vlist :: "'n vec \<Rightarrow> 'n list" where
  "vlist v = (case v of (a, b, c) \<Rightarrow> [a, b, c])"

definition Rc :: "'n::{zero,one} mat" where
  "Rc = ((0, 0, 1), (1, 0, 0), (0, 1, 0))"

text \<open>
  The inner loop of the torus (variant \<^verbatim>\<open>extrude_lines\<close>) and of the pipe (variant
  \<^verbatim>\<open>rectangle_rotation\<close>): every curve of \<^verbatim>\<open>previous\<close> is extruded by the angle, its
  far end replaces it in \<^verbatim>\<open>previous\<close>, and the surface swept joins \<^verbatim>\<open>all_surfaces\<close>. The
  result is the new \<^verbatim>\<open>previous\<close> and the surfaces of this pass. An exception of
  \<^verbatim>\<open>extrude\<close> ends the loop.
\<close>

fun extrude_each ::
  "('n, 'g) env \<Rightarrow> 'n vec \<Rightarrow> 'n vec \<Rightarrow> 'n val \<Rightarrow> entity list \<Rightarrow> 'g geometry \<Rightarrow>
     (error + entity list \<times> entity list) \<times> 'g geometry" where
  "extrude_each env rot_axis point_on_rot_axis angle [] s = (Inr ([], []), s)"
| "extrude_each env rot_axis point_on_rot_axis angle (l # ls) s =
     (case extrude env (Str (''Line{'' @ id' l @ ''}'')) None (Some rot_axis) (Some point_on_rot_axis) angle s of
        (Inl err, s1) \<Rightarrow> (Inl err, s1)
      | (Inr (top', surf), s1) \<Rightarrow>
          (case extrude_each env rot_axis point_on_rot_axis angle ls s1 of
             (Inl err, s2) \<Rightarrow> (Inl err, s2)
           | (Inr (tops, surfs), s2) \<Rightarrow> (Inr (top' # tops, surf # surfs), s2)))"

text \<open>
  The outer loop, \<^verbatim>\<open>for i in range(3)\<close>: a comment (\<^verbatim>\<open>'Round no. %s' % (i+1)\<close> in the
  torus, \<^verbatim>\<open>'Step %s' % (i+1)\<close> in the pipe; \<open>title\<close> is the text before the number), then
  the inner loop.
\<close>

fun extrude_rounds ::
  "('n, 'g) env \<Rightarrow> string \<Rightarrow> 'n vec \<Rightarrow> 'n vec \<Rightarrow> 'n val \<Rightarrow> int list \<Rightarrow> entity list \<Rightarrow> 'g geometry \<Rightarrow>
     (error + entity list \<times> entity list) \<times> 'g geometry" where
  "extrude_rounds env title rot_axis point_on_rot_axis angle [] previous s = (Inr (previous, []), s)"
| "extrude_rounds env title rot_axis point_on_rot_axis angle (i # rest) previous s =
     (let (u, s1) = add_comment (title @ fmt_d (i + 1)) s
      in case extrude_each env rot_axis point_on_rot_axis angle previous s1 of
           (Inl err, s2) \<Rightarrow> (Inl err, s2)
         | (Inr (tops, surfs), s2) \<Rightarrow>
             (case extrude_rounds env title rot_axis point_on_rot_axis angle rest tops s2 of
                (Inl err, s3) \<Rightarrow> (Inl err, s3)
              | (Inr (previous', later), s3) \<Rightarrow> (Inr (previous', surfs @ later), s3)))"

definition dashes :: string where
  "dashes = replicate 76 CHR ''-''"

text \<open>
  Both builders of the torus hold the name of the volume in \<^verbatim>\<open>vol\<close> and end in a bare
  \<^verbatim>\<open>return\<close>: the call returns \<^verbatim>\<open>None\<close>, where a handle would be that name, a string.
\<close>

definition add_torus_extrude_lines ::
  "('n::{zero,one,plus,times}, 'g) env \<Rightarrow> 'n \<Rightarrow> 'n \<Rightarrow> 'n \<Rightarrow> 'n mat \<Rightarrow> 'n vec \<Rightarrow> string option \<Rightarrow>
     'g geometry \<Rightarrow> (error + string option) \<times> 'g geometry" where
  "add_torus_extrude_lines env irad orad lcar R x0 label s =
     (let (u1, s1) = add_comment dashes s;
          (u2, s2) = add_comment ''Torus'' s1;
          x0t = dot_mv R (0, orad, 0);
          (c, s3) = add_new (Circle env (vec_add x0 x0t) irad lcar (dot_mm R Rc) None None) s2;
          rot_axis = dot_mv R (0, 0, 1);
          point_on_rot_axis = vec_add (dot_mv R (0, 0, 0)) x0;
          previous = lines (line_loop c);
          angle = Text ''2*Pi/3''
      in case extrude_rounds env ''Round no. '' rot_axis point_on_rot_axis angle [0, 1, 2] previous s3 of
           (Inl err, s4) \<Rightarrow> (Inl err, s4)
         | (Inr (previous', all_surfaces), s4) \<Rightarrow>
             (let (surface_loop, s5) = add_surface_loop all_surfaces s4;
                  (vol, s6) = add_volume surface_loop s5;
                  s7 = (if nonempty label
                        then snd (add_physical_volume env (Name vol) label s6) else s6);
                  (u3, s8) = add_comment (dashes @ [newline]) s7
              in (Inr None, s8)))"

text \<open>
  The loop of the variant \<^verbatim>\<open>extrude_circle\<close>, \<^verbatim>\<open>for _ in range(num_steps)\<close>: the surface
  \<^verbatim>\<open>previous\<close> is extruded, its far end is the next \<^verbatim>\<open>previous\<close>, the volume swept joins
  \<^verbatim>\<open>all_volumes\<close>.
\<close>

fun extrude_steps ::
  "('n, 'g) env \<Rightarrow> 'n vec \<Rightarrow> 'n vec \<Rightarrow> int \<Rightarrow> nat \<Rightarrow> entity \<Rightarrow> 'g geometry \<Rightarrow>
     (error + entity list) \<times> 'g geometry" where
  "extrude_steps env rot_axis point_on_rot_axis num_steps 0 previous s = (Inr [], s)"
| "extrude_steps env rot_axis point_on_rot_axis num_steps (Suc n) previous s =
     (case extrude env (Str (''Surface{'' @ id' previous @ ''}'')) None (Some rot_axis)
             (Some point_on_rot_axis) (Text (''2*Pi/'' @ fmt_d num_steps)) s of
        (Inl err, s1) \<Rightarrow> (Inl err, s1)
      | (Inr (top', vol), s1) \<Rightarrow>
          (case extrude_steps env rot_axis point_on_rot_axis num_steps n top' s1 of
             (Inl err, s2) \<Rightarrow> (Inl err, s2)
           | (Inr vols, s2) \<Rightarrow> (Inr (vol # vols), s2)))"

definition add_torus_extrude_circle ::
  "('n::{zero,one,plus,times}, 'g) env \<Rightarrow> 'n \<Rightarrow> 'n \<Rightarrow> 'n \<Rightarrow> 'n mat \<Rightarrow> 'n vec \<Rightarrow> string option \<Rightarrow>
     'g geometry \<Rightarrow> (error + string option) \<times> 'g geometry" where
  "add_torus_extrude_circle env irad orad lcar R x0 label s =
     (let (u1, s1) = add_comment dashes s;
          (u2, s2) = add_comment ''Torus'' s1;
          x0t = dot_mv R (0, orad, 0);
          (c, s3) = add_new (Circle env (vec_add x0 x0t) irad lcar (dot_mm R Rc) None None) s2;
          rot_axis = dot_mv R (0, 0, 1);
          point_on_rot_axis = vec_add (dot_mv R (0, 0, 0)) x0;
          previous = plane_surface c;
          num_steps = 3
      in case extrude_steps env rot_axis point_on_rot_axis num_steps (nat num_steps) previous s3 of
           (Inl err, s4) \<Rightarrow> (Inl err, s4)
         | (Inr all_volumes, s4) \<Rightarrow>
             (let (vol, s5) = add_compound_volume all_volumes s4;
                  s6 = (if nonempty label
                        then snd (add_physical_volume env (Name vol) label s5) else s5);
                  (u3, s7) = add_comment (dashes @ [newline]) s6
              in (Inr None, s7)))"

definition illegal_variant :: "string \<Rightarrow> error" where
  "illegal_variant variant = ValueError (''Illegal variant '' @ [CHR 0x27] @ variant @ [CHR 0x27] @ ''.'')"

definition add_torus ::
  "('n::{zero,one,plus,times}, 'g) env \<Rightarrow> 'n \<Rightarrow> 'n \<Rightarrow> 'n \<Rightarrow> 'n mat \<Rightarrow> 'n vec \<Rightarrow> string option \<Rightarrow> string \<Rightarrow>
     'g geometry \<Rightarrow> (error + string option) \<times> 'g geometry" where
  "add_torus env irad orad lcar R x0 label variant s =
     (if variant = ''extrude_lines'' then add_torus_extrude_lines env irad orad lcar R x0 label s
      else if variant = ''extrude_circle'' then add_torus_extrude_circle env irad orad lcar R x0 label s
      else (Inl (illegal_variant variant), s))"

text \<open>\<^verbatim>\<open>0.5\<close> is written \<open>inverse (1 + 1)\<close>.\<close>

definition half :: "'n::{one,plus,inverse}" where
  "half = inverse (1 + 1)"

definition add_pipe_by_rectangle_rotation ::
  "('n::{zero,one,plus,times,uminus,inverse}, 'g) env \<Rightarrow> 'n \<Rightarrow> 'n \<Rightarrow> 'n \<Rightarrow> 'n mat \<Rightarrow> 'n vec \<Rightarrow>
     string option \<Rightarrow> 'n \<Rightarrow> 'g geometry \<Rightarrow> (error + entity option) \<times> 'g geometry" where
  "add_pipe_by_rectangle_rotation env outer_radius inner_radius len R x0 label lcar s =
     (let (u1, s1) = add_comment ''Define rectangle.'' s;
          X = [(0, outer_radius, (- half) * len),
               (0, outer_radius, half * len),
               (0, inner_radius, half * len),
               (0, inner_radius, (- half) * len)];
          X' = map (\<lambda>x. vec_add (dot_mv R x) x0) X;
          (p, s2) = add_all (map (\<lambda>x. Point env (vlist x) lcar) X') s1;
          (e, s3) = add_all [Line env (p ! 0) (p ! 1),
                             Line env (p ! 1) (p ! 2),
                             Line env (p ! 2) (p ! 3),
                             Line env (p ! 3) (p ! 0)] s2;
          rot_axis = dot_mv R (0, 0, 1);
          point_on_rot_axis = vec_add (dot_mv R (0, 0, 0)) x0;
          previous = e;
          angle = Text ''2*Pi/3'';
          (u2, s4) = add_comment ''Extrude in 3 steps.'' s3
      in case extrude_rounds env ''Step '' rot_axis point_on_rot_axis angle [0, 1, 2] previous s4 of
           (Inl err, s5) \<Rightarrow> (Inl err, s5)
         | (Inr (previous', all_surfaces), s5) \<Rightarrow>
             (let (surface_loop, s6) = add_surface_loop all_surfaces s5;
                  (vol, s7) = add_volume surface_loop s6;
                  s8 = (if nonempty label
                        then snd (add_physical_volume env (Name vol) label s7) else s7)
              in (Inr None, s8)))"

definition add_pipe_by_circle_extrusion ::
  "('n::{zero,one,plus,times}, 'g) env \<Rightarrow> 'n \<Rightarrow> 'n \<Rightarrow> 'n \<Rightarrow> 'n mat \<Rightarrow> 'n vec \<Rightarrow>
     string option \<Rightarrow> 'n \<Rightarrow> 'g geometry \<Rightarrow> (error + entity option) \<times> 'g geometry" where
  "add_pipe_by_circle_extrusion env outer_radius inner_radius len R x0 label lcar s =
     (let (c_inner, s1) = add_new (Circle env x0 inner_radius lcar (dot_mm R Rc) (Some False) None) s;
          (circ, s2) = add_new (Circle env x0 outer_radius lcar (dot_mm R Rc) None
                                  (Some [line_loop c_inner])) s1
      in case extrude env (Str (''Surface{'' @ id' (plane_surface circ) @ ''}''))
                (Some (dot_mv R (len, 0, 0))) None None NoneVal s2 of
           (Inl err, s3) \<Rightarrow> (Inl err, s3)
         | (Inr (top', vol), s3) \<Rightarrow>
             (let s4 = (if nonempty label
                        then snd (add_physical_volume env (Obj vol) label s3) else s3)
              in (Inr (Some vol), s4)))"

definition add_pipe ::
  "('n::{zero,one,plus,times,uminus,inverse}, 'g) env \<Rightarrow> 'n \<Rightarrow> 'n \<Rightarrow> 'n \<Rightarrow> 'n mat \<Rightarrow> 'n vec \<Rightarrow>
     string option \<Rightarrow> 'n \<Rightarrow> string \<Rightarrow> 'g geometry \<Rightarrow> (error + entity option) \<times> 'g geometry" where
  "add_pipe env outer_radius inner_radius len R x0 label lcar variant s =
     (if variant = ''rectangle_rotation''
      then add_pipe_by_rectangle_rotation env outer_radius inner_radius len R x0 label lcar s
      else if variant = ''circle_extrusion''
      then add_pipe_by_circle_extrusion env outer_radius inner_radius len R x0 label lcar s
      else (Inl (illegal_variant variant), s))"

section \<open>The session of the OpenCASCADE kernel\<close>

text \<open>
  \<^verbatim>\<open>pygmsh/opencascade/geometry.py\<close>. Of an entity the boolean operations read the
  attribute \<^verbatim>\<open>id\<close> and which of the three base classes \<^verbatim>\<open>LineBase\<close>, \<^verbatim>\<open>SurfaceBase\<close>,
  \<^verbatim>\<open>VolumeBase\<close> it is an instance of (\<open>None\<close>: of none, as a \<^verbatim>\<open>Dummy\<close> is). The base
  classes are not among the sources; no class of the package derives from two of them.
\<close>

datatype dim_type = LineBase | SurfaceBase | VolumeBase

record oc_entity =
  dim :: "dim_type option"
  oid :: string

text \<open>
  The result of \<^verbatim>\<open>dim_type(id0=name, is_list=True)\<close>: an instance of the base class, with
  the arguments of the call. Its \<^verbatim>\<open>id\<close> is set by the constructor, a parameter
  \<open>base_id\<close> of the model.
\<close>

record base = oc_entity +
  id0 :: string
  is_list :: bool

record oc_geometry =
  BOOLEAN_ID :: int
  EXTRUDE_ID_oc :: int
  GMSH_MAJOR :: int
  GMSH_CODE_oc :: "string list"

text \<open>
  \<^verbatim>\<open>get_gmsh_major_version()\<close> asks the installed kernel: its answer is a parameter. The
  characteristic lengths are formatted with \<^verbatim>\<open>'{}'.format(x)\<close>, here \<open>str\<close>.
\<close>

definition oc_init :: "string \<Rightarrow> int \<Rightarrow> ('n \<Rightarrow> string) \<Rightarrow> 'n option \<Rightarrow> 'n option \<Rightarrow> oc_geometry" where
  "oc_init version gmsh_major str characteristic_length_min characteristic_length_max =
     (let code0 = [''// This code was created by PyGmsh v'' @ version @ ''.'',
                   ''SetFactory('' @ [dquote] @ ''OpenCASCADE'' @ [dquote] @ '');''];
          code1 = (case characteristic_length_min of
                     None \<Rightarrow> code0
                   | Some x \<Rightarrow> code0 @ [''Mesh.CharacteristicLengthMin = '' @ str x @ '';'']);
          code2 = (case characteristic_length_max of
                     None \<Rightarrow> code1
                   | Some x \<Rightarrow> code1 @ [''Mesh.CharacteristicLengthMax = '' @ str x @ '';''])
      in \<lparr>BOOLEAN_ID = 0, EXTRUDE_ID_oc = 0, GMSH_MAJOR = gmsh_major, GMSH_CODE_oc = code2\<rparr>)"

definition oc_get_code :: "oc_geometry \<Rightarrow> string" where
  "oc_get_code s = join [newline] (GMSH_CODE_oc s)"

definition legal_dim_types :: "dim_type \<Rightarrow> string" where
  "legal_dim_types d = (case d of LineBase \<Rightarrow> ''Line'' | SurfaceBase \<Rightarrow> ''Surface'' | VolumeBase \<Rightarrow> ''Volume'')"

text \<open>
  \<^verbatim>\<open>_boolean_operation\<close>. \<^verbatim>\<open>input_entities[0]\<close> raises \<^verbatim>\<open>IndexError\<close> on the empty list;
  the two \<^verbatim>\<open>assert\<close>s raise \<^verbatim>\<open>AssertionError\<close>. The counter is incremented first.
\<close>

definition boolean_operation ::
  "(dim_type \<Rightarrow> string \<Rightarrow> bool \<Rightarrow> string) \<Rightarrow> string \<Rightarrow> ('a oc_entity_scheme) list \<Rightarrow>
     ('a oc_entity_scheme) list \<Rightarrow> bool \<Rightarrow> oc_geometry \<Rightarrow> (error + base) \<times> oc_geometry" where
  "boolean_operation base_id operation input_entities tool_entities delete s =
     (let s1 = s\<lparr>BOOLEAN_ID := BOOLEAN_ID s + 1\<rparr>
      in case input_entities of
           [] \<Rightarrow> (Inl IndexError, s1)
         | e0 # es \<Rightarrow>
             (case dim e0 of
                None \<Rightarrow> (Inl (AssertionError Illegal_input_type), s1)
              | Some d \<Rightarrow>
                  if \<not> list_all (\<lambda>e. dim e = Some d) (es @ tool_entities)
                  then (Inl (AssertionError Incompatible_input_type), s1)
                  else (let name = ''bo'' @ fmt_d (BOOLEAN_ID s1);
                            del = (if delete then ''Delete;'' else []);
                            s2 = s1\<lparr>GMSH_CODE_oc := GMSH_CODE_oc s1 @
                                   [name @ ''[] = '' @ operation @ ''{'' @ legal_dim_types d @ '' {''
                                    @ join '','' (map oid input_entities) @ ''}; '' @ del @ ''} {''
                                    @ legal_dim_types d @ '' {'' @ join '','' (map oid tool_entities)
                                    @ ''}; '' @ del @ ''};'']\<rparr>
                        in (Inr \<lparr>dim = Some d, oid = base_id d name True, id0 = name, is_list = True\<rparr>,
                            s2))))"

definition boolean_intersection ::
  "(dim_type \<Rightarrow> string \<Rightarrow> bool \<Rightarrow> string) \<Rightarrow> ('a oc_entity_scheme) list \<Rightarrow> bool \<Rightarrow> oc_geometry \<Rightarrow>
     (error + base) \<times> oc_geometry" where
  "boolean_intersection base_id entities delete s =
     (if \<not> length entities > 1 then (Inl (AssertionError Len_entities_gt_1), s)
      else boolean_operation base_id ''BooleanIntersection'' [hd entities] (tl entities) delete s)"

text \<open>\<^verbatim>\<open>boolean_union\<close> has no such \<^verbatim>\<open>assert\<close>: \<^verbatim>\<open>entities[0]\<close> raises on the empty list.\<close>

definition boolean_union ::
  "(dim_type \<Rightarrow> string \<Rightarrow> bool \<Rightarrow> string) \<Rightarrow> ('a oc_entity_scheme) list \<Rightarrow> bool \<Rightarrow> oc_geometry \<Rightarrow>
     (error + base) \<times> oc_geometry" where
  "boolean_union base_id entities delete s =
     (case entities of
        [] \<Rightarrow> (Inl IndexError, s)
      | e # es \<Rightarrow> boolean_operation base_id ''BooleanUnion'' [e] es delete s)"

definition boolean_difference ::
  "(dim_type \<Rightarrow> string \<Rightarrow> bool \<Rightarrow> string) \<Rightarrow> ('a oc_entity_scheme) list \<Rightarrow> ('a oc_entity_scheme) list \<Rightarrow>
     bool \<Rightarrow> oc_geometry \<Rightarrow> (error + base) \<times> oc_geometry" where
  "boolean_difference base_id input_entities tool_entities delete s =
     boolean_operation base_id ''BooleanDifference'' input_entities tool_entities delete s"

definition boolean_fragments ::
  "(dim_type \<Rightarrow> string \<Rightarrow> bool \<Rightarrow> string) \<Rightarrow> ('a oc_entity_scheme) list \<Rightarrow> ('a oc_entity_scheme) list \<Rightarrow>
     bool \<Rightarrow> oc_geometry \<Rightarrow> (error + base) \<times> oc_geometry" where
  "boolean_fragments base_id input_entities tool_entities delete s =
     boolean_operation base_id ''BooleanFragments'' input_entities tool_entities delete s"

text \<open>
  \<^verbatim>\<open>extrude\<close> of the OpenCASCADE session. Its entity is a string (\<^verbatim>\<open>_is_string\<close>) or an
  object, of which the method reads the base class, the \<^verbatim>\<open>id\<close> and, when it has one
  (\<^verbatim>\<open>hasattr\<close>), the attribute \<^verbatim>\<open>surface\<close>. The two objects returned are made by
  \<^verbatim>\<open>LineBase(text)\<close>, \<^verbatim>\<open>SurfaceBase(text)\<close>, \<^verbatim>\<open>VolumeBase(text)\<close> or \<^verbatim>\<open>Dummy(text)\<close>:
  \<open>Made d text\<close> and \<open>Made_dummy text\<close>. The components of the axis are formatted with
  \<^verbatim>\<open>repr\<close>, a parameter. The counter is incremented first; the \<^verbatim>\<open>assert\<close> comes before the
  statement is appended.
\<close>

record oc_object = oc_entity +
  surface :: "oc_entity option"

datatype oc_source = OStr string | OObj oc_object

datatype oc_made = Made dim_type string | Made_dummy string

definition oc_extrude ::
  "('n \<Rightarrow> string) \<Rightarrow> oc_source \<Rightarrow> 'n list \<Rightarrow> oc_geometry \<Rightarrow>
     (error + oc_made \<times> oc_made) \<times> oc_geometry" where
  "oc_extrude repr input_entity translation_axis s =
     (let s1 = s\<lparr>EXTRUDE_ID_oc := EXTRUDE_ID_oc s + 1\<rparr>;
          entity =
            (case input_entity of
               OStr x \<Rightarrow> Inr x
             | OObj obj \<Rightarrow>
                 if dim obj = Some SurfaceBase then Inr (''Surface{'' @ oid obj @ ''}'')
                 else (case surface obj of
                         Some sf \<Rightarrow> Inr (''Surface{'' @ oid sf @ ''}'')
                       | None \<Rightarrow>
                           if dim obj = Some LineBase then Inr (''Line{'' @ oid obj @ ''}'')
                           else Inl (AssertionError Illegal_extrude_entity)))
      in case entity of
           Inl err \<Rightarrow> (Inl err, s1)
         | Inr entity_id \<Rightarrow>
             (let name = ''ex'' @ fmt_d (EXTRUDE_ID_oc s1);
                  s2 = s1\<lparr>GMSH_CODE_oc := GMSH_CODE_oc s1 @
                         [name @ ''[] = Extrude{'' @ join '','' (map repr translation_axis) @ ''}{''
                          @ entity_id @ '';};'']\<rparr>;
                  top' = name @ ''[0]'';
                  extruded = name @ ''[1]''
              in (Inr (case input_entity of
                         OStr x \<Rightarrow> (Made_dummy top', Made_dummy extruded)
                       | OObj obj \<Rightarrow>
                           if dim obj = Some LineBase
                           then (Made LineBase top', Made SurfaceBase extruded)
                           else if dim obj = Some SurfaceBase
                           then (Made SurfaceBase top', Made VolumeBase extruded)
                           else (Made_dummy top', Made_dummy extruded)),
                  s2)))"

section \<open>Sequences of calls\<close>

text \<open>
  The public methods of the built-in session, as the calls a client can make, and the
  session each call leaves behind, whether the call returns or raises.
\<close>

datatype 'n call =
    Add obj
  | Add_ruled_surface entity
  | Add_compound_surface "entity list"
  | Add_surface_loop "entity list"
  | Add_volume string
  | Add_compound_volume "entity list"
  | Add_physical_point handle "string option"
  | Add_physical_line handle "string option"
  | Add_physical_surface handle "string option"
  | Add_physical_volume handle "string option"
  | Extrude source "'n vec option" "'n vec option" "'n vec option" "'n val"
  | Add_boundary_layer "entity list option" "string list option" "entity list option"
      "'n option" "'n option" "'n option" "'n option" "'n option" "'n option"
  | Add_background_field "string list" string
  | Add_array "string list"
  | Add_comment string
  | Add_raw_code raw_code
  | Add_rectangle 'n 'n 'n 'n 'n 'n "loop list option"
  | Add_polygon_loop "'n list list" 'n
  | Add_polygon "'n list list" 'n "loop list option"
  | Add_ellipsoid "'n vec" "'n vec" 'n bool "string list option" "string option"
  | Add_ball "'n vec" 'n 'n bool "string list option" "string option"
  | Add_box 'n 'n 'n 'n 'n 'n 'n bool "string list option" "string option"
  | Add_torus 'n 'n 'n "'n mat" "'n vec" "string option" string
  | Add_pipe 'n 'n 'n "'n mat" "'n vec" "string option" 'n string
  | Get_code

fun perform ::
  "('n::{zero,one,plus,minus,times,uminus,inverse}, 'g) env \<Rightarrow> 'n call \<Rightarrow> 'g geometry \<Rightarrow> 'g geometry" where
  "perform env (Add e) s = snd (add e s)"
| "perform env (Add_ruled_surface l) s = snd (add_ruled_surface l s)"
| "perform env (Add_compound_surface ss) s = snd (add_compound_surface ss s)"
| "perform env (Add_surface_loop ss) s = snd (add_surface_loop ss s)"
| "perform env (Add_volume sl) s = snd (add_volume sl s)"
| "perform env (Add_compound_volume vs) s = snd (add_compound_volume vs s)"
| "perform env (Add_physical_point h l) s = snd (add_physical_point env h l s)"
| "perform env (Add_physical_line h l) s = snd (add_physical_line env h l s)"
| "perform env (Add_physical_surface h l) s = snd (add_physical_surface env h l s)"
| "perform env (Add_physical_volume h l) s = snd (add_physical_volume env h l s)"
| "perform env (Extrude e t r p a) s = snd (extrude env e t r p a s)"
| "perform env (Add_boundary_layer es fs ns am hf hn ht ra th) s =
     snd (add_boundary_layer env es fs ns am hf hn ht ra th s)"
| "perform env (Add_background_field fs a) s = snd (add_background_field fs a s)"
| "perform env (Add_array es) s = snd (add_array es s)"
| "perform env (Add_comment c) s = snd (add_comment c s)"
| "perform env (Add_raw_code c) s = snd (add_raw_code c s)"
| "perform env (Add_rectangle xmin xmax ymin ymax z lcar holes) s =
     snd (add_rectangle env xmin xmax ymin ymax z lcar holes s)"
| "perform env (Add_polygon_loop X lcar) s = snd (add_polygon_loop env X lcar s)"
| "perform env (Add_polygon X lcar holes) s = snd (add_polygon env X lcar holes s)"
| "perform env (Add_ellipsoid x0 radii lcar wv holes label) s =
     snd (add_ellipsoid env x0 radii lcar wv holes label s)"
| "perform env (Add_ball x0 radius lcar wv holes label) s =
     snd (add_ball env x0 radius lcar wv holes label s)"
| "perform env (Add_box x0 x1 y0 y1 z0 z1 lcar wv holes label) s =
     snd (add_box env x0 x1 y0 y1 z0 z1 lcar wv holes label s)"
| "perform env (Add_torus irad orad lcar R x0 label variant) s =
     snd (add_torus env irad orad lcar R x0 label variant s)"
| "perform env (Add_pipe outer_radius inner_radius len R x0 label lcar variant) s =
     snd (add_pipe env outer_radius inner_radius len R x0 label lcar variant s)"
| "perform env Get_code s = s"


section \<open>Samples\<close>

text \<open>
  Whether the entities of a boolean operation all have the dimensional type \<open>d\<close>.
\<close>

definition same_dim :: "('a oc_entity_scheme) list \<Rightarrow> dim_type \<Rightarrow> bool" where
  "same_dim entities d = list_all (\<lambda>e. dim e = Some d) entities"

text \<open>
  Concrete inputs on which closed statements are evaluated: two entities, two objects
  to extrude and a fresh session of the OpenCASCADE kernel, a constructor that marks a list reference with
  \<^verbatim>\<open>[]\<close>, and for the built-in kernel an environment whose entities are named by a running
  number, with a fresh session.
\<close>

definition surface1 :: oc_entity where
  "surface1 = \<lparr>dim = Some SurfaceBase, oid = ''s1''\<rparr>"

definition line1 :: oc_entity where
  "line1 = \<lparr>dim = Some LineBase, oid = ''l1''\<rparr>"

definition surface_object1 :: oc_object where
  "surface_object1 = \<lparr>dim = Some SurfaceBase, oid = ''s1'', surface = None\<rparr>"

definition line_object1 :: oc_object where
  "line_object1 = \<lparr>dim = Some LineBase, oid = ''l1'', surface = None\<rparr>"

definition oc_session0 :: oc_geometry where
  "oc_session0 = oc_init ''3.0'' 3 fmt_d None None"

definition list_id :: "dim_type \<Rightarrow> string \<Rightarrow> bool \<Rightarrow> string" where
  "list_id d name l = (if l then name @ ''[]'' else name)"

definition sample_entity :: "string \<Rightarrow> nat \<Rightarrow> entity" where
  "sample_entity k g =
     \<lparr>cls = CDummy, code = k @ fmt_d (int g) @ '' = new;'', id' = k @ fmt_d (int g)\<rparr>"

definition sample_loop :: "entity list \<Rightarrow> nat \<Rightarrow> loop" where
  "sample_loop ls g =
     \<lparr>cls = CLineLoop, code = ''ll'' @ fmt_d (int g) @ '' = newll;'', id' = ''ll'' @ fmt_d (int g),
      lines = ls\<rparr>"

definition sample_env :: "(real, nat) env" where
  "sample_env =
     \<lparr>Point_init = (\<lambda>x lcar g. (sample_entity ''p'' g, Suc g)),
      Line_init = (\<lambda>p q g. (sample_entity ''l'' g, Suc g)),
      LineLoop_init = (\<lambda>ls g. (sample_loop ls g, Suc g)),
      EllipseArc_init = (\<lambda>ps g. (sample_entity ''el'' g, Suc g)),
      PlaneSurface_init = (\<lambda>ll holes g. (sample_entity ''ps'' g, Suc g)),
      Circle_init = (\<lambda>x0 r lcar R make_surface holes g.
         (\<lparr>cls = CCircle, code = ''c'' @ fmt_d (int g) @ '' = newc;'',
           line_loop = sample_loop [sample_entity ''c'' g, sample_entity ''c'' (g + 1),
                                    sample_entity ''c'' (g + 2)] (g + 3),
           plane_surface = sample_entity ''ps'' (g + 4)\<rparr>, g + 5)),
      neg_init = (\<lambda>e g. (e\<lparr>id' := ''-'' @ id' e\<rparr>, g)),
      str_num = (\<lambda>x. fmt_d \<lfloor>x\<rfloor>),
      repr_num = (\<lambda>x. fmt_d \<lfloor>x\<rfloor>),
      str_entity = id'\<rparr>"

definition session0 :: "nat geometry" where
  "session0 = init ''3.0'' 0"

section \<open>Allocation of names\<close>

text \<open>Reading a decimal numeral back, to see that \<open>fmt_d\<close> is injective.\<close>

definition is_digit :: "char \<Rightarrow> bool" where
  "is_digit c = (48 \<le> (of_char c :: nat) \<and> (of_char c :: nat) \<le> 57)"

definition is_num_char :: "char \<Rightarrow> bool" where
  "is_num_char c = (is_digit c \<or> c = CHR ''-'')"

definition digit_val :: "char \<Rightarrow> nat" where
  "digit_val c = of_char c - 48"

definition decimal_val :: "string \<Rightarrow> nat" where
  "decimal_val cs = foldl (\<lambda>a c. 10 * a + digit_val c) 0 cs"

text \<open>
  The categories of names of the built-in session, each with its counter, and the
  methods that allocate a name: each increments the counter of its category and formats
  the name from the new value. \<open>allocate\<close> gives the handle the method returns (for
  \<^verbatim>\<open>extrude\<close> the \<^verbatim>\<open>id\<close> of the far end, \<^verbatim>\<open>ex<n>[0]\<close>; \<open>None\<close> when it raises; for a physical
  group without label what \<^verbatim>\<open>_new_physical_group\<close> returns), \<open>name_text\<close> the text of that
  handle for the sequence number \<open>n\<close>.
\<close>

datatype category = Surface | Surface_loop | Volume | Extrusion | Field | Array | Physical_group

definition counter :: "category \<Rightarrow> 'g geometry \<Rightarrow> int" where
  "counter c s =
     (case c of
        Surface \<Rightarrow> SURFACE_ID s
      | Surface_loop \<Rightarrow> SURFACELOOP_ID s
      | Volume \<Rightarrow> VOLUME_ID s
      | Extrusion \<Rightarrow> EXTRUDE_ID s
      | Field \<Rightarrow> FIELD_ID s
      | Array \<Rightarrow> ARRAY_ID s
      | Physical_group \<Rightarrow> PHYSICALGROUP_ID s)"

datatype 'n alloc =
    Ruled_surface entity
  | Compound_surface "entity list"
  | New_surface_loop "entity list"
  | New_volume string
  | Compound_volume "entity list"
  | New_extrusion source "'n vec option" "'n vec option" "'n vec option" "'n val"
  | Boundary_layer "entity list option" "string list option" "entity list option"
      "'n option" "'n option" "'n option" "'n option" "'n option" "'n option"
  | Background_field "string list" string
  | New_array "string list"
  | New_physical_group

fun category_of :: "'n alloc \<Rightarrow> category" where
  "category_of (Ruled_surface l) = Surface"
| "category_of (Compound_surface ss) = Surface"
| "category_of (New_surface_loop ss) = Surface_loop"
| "category_of (New_volume sl) = Volume"
| "category_of (Compound_volume vs) = Volume"
| "category_of (New_extrusion e t r p a) = Extrusion"
| "category_of (Boundary_layer es fs ns am hf hn ht ra th) = Field"
| "category_of (Background_field fs a) = Field"
| "category_of (New_array es) = Array"
| "category_of New_physical_group = Physical_group"

fun allocate :: "('n::zero, 'g) env \<Rightarrow> 'n alloc \<Rightarrow> 'g geometry \<Rightarrow> string option \<times> 'g geometry" where
  "allocate env (Ruled_surface l) s = (let (d, s') = add_ruled_surface l s in (Some (id' d), s'))"
| "allocate env (Compound_surface ss) s = (let (d, s') = add_compound_surface ss s in (Some (id' d), s'))"
| "allocate env (New_surface_loop ss) s = (let (n, s') = add_surface_loop ss s in (Some n, s'))"
| "allocate env (New_volume sl) s = (let (n, s') = add_volume sl s in (Some n, s'))"
| "allocate env (Compound_volume vs) s = (let (n, s') = add_compound_volume vs s in (Some n, s'))"
| "allocate env (New_extrusion e t r p a) s =
     (case extrude env e t r p a s of
        (Inl err, s') \<Rightarrow> (None, s')
      | (Inr (top', extruded), s') \<Rightarrow> (Some (id' top'), s'))"
| "allocate env (Boundary_layer es fs ns am hf hn ht ra th) s =
     (let (n, s') = add_boundary_layer env es fs ns am hf hn ht ra th s in (Some n, s'))"
| "allocate env (Background_field fs a) s = (let (n, s') = add_background_field fs a s in (Some n, s'))"
| "allocate env (New_array es) s = (let (n, s') = add_array es s in (Some n, s'))"
| "allocate env New_physical_group s = (let (n, s') = new_physical_group None s in (Some n, s'))"

fun name_text :: "'n alloc \<Rightarrow> int \<Rightarrow> string" where
  "name_text (Ruled_surface l) n = ''surf'' @ fmt_d n"
| "name_text (Compound_surface ss) n = ''surf'' @ fmt_d n"
| "name_text (New_surface_loop ss) n = ''surfloop'' @ fmt_d n"
| "name_text (New_volume sl) n = ''vol'' @ fmt_d n"
| "name_text (Compound_volume vs) n = ''cv'' @ fmt_d n"
| "name_text (New_extrusion e t r p a) n = ''ex'' @ fmt_d n @ ''[0]''"
| "name_text (Boundary_layer es fs ns am hf hn ht ra th) n = ''field'' @ fmt_d n"
| "name_text (Background_field fs a) n = ''field'' @ fmt_d n"
| "name_text (New_array es) n = ''array'' @ fmt_d n @ ''[]''"
| "name_text New_physical_group n = fmt_d n"

text \<open>The names of the calls that returned.\<close>

fun somes :: "'a option list \<Rightarrow> 'a list" where
  "somes [] = []"
| "somes (None # xs) = somes xs"
| "somes (Some x # xs) = x # somes xs"

text \<open>
  A boolean operation of the OpenCASCADE session as an allocation: \<^verbatim>\<open>id0\<close> of the entity
  returned, \<open>None\<close> when the call raises.
\<close>

definition boolean_call ::
  "(dim_type \<Rightarrow> string \<Rightarrow> bool \<Rightarrow> string) \<Rightarrow> string \<times> oc_entity list \<times> oc_entity list \<times> bool \<Rightarrow>
     oc_geometry \<Rightarrow> string option \<times> oc_geometry" where
  "boolean_call base_id c s =
     (case c of (operation, input_entities, tool_entities, delete) \<Rightarrow>
        (case boolean_operation base_id operation input_entities tool_entities delete s of
           (Inl err, s') \<Rightarrow> (None, s')
         | (Inr b, s') \<Rightarrow> (Some (id0 b), s')))"

text \<open>
  The two categories of names of the OpenCASCADE session, with their counters, and its
  methods that allocate a name: a boolean operation (\<^verbatim>\<open>id0\<close> of the entity returned) and
  an extrusion (the text of the far end, \<^verbatim>\<open>ex<n>[0]\<close>); \<open>None\<close> when the call raises.
\<close>

datatype oc_category = Boolean | Extrusion_oc

definition oc_counter :: "oc_category \<Rightarrow> oc_geometry \<Rightarrow> int" where
  "oc_counter c s = (case c of Boolean \<Rightarrow> BOOLEAN_ID s | Extrusion_oc \<Rightarrow> EXTRUDE_ID_oc s)"

datatype 'n oc_alloc =
    New_boolean string "oc_entity list" "oc_entity list" bool
  | New_oc_extrusion oc_source "'n list"

fun oc_category_of :: "'n oc_alloc \<Rightarrow> oc_category" where
  "oc_category_of (New_boolean operation input_entities tool_entities delete) = Boolean"
| "oc_category_of (New_oc_extrusion e t) = Extrusion_oc"

fun made_text :: "oc_made \<Rightarrow> string" where
  "made_text (Made d x) = x"
| "made_text (Made_dummy x) = x"

fun oc_allocate ::
  "(dim_type \<Rightarrow> string \<Rightarrow> bool \<Rightarrow> string) \<Rightarrow> ('n \<Rightarrow> string) \<Rightarrow> 'n oc_alloc \<Rightarrow> oc_geometry \<Rightarrow>
     string option \<times> oc_geometry" where
  "oc_allocate base_id repr (New_boolean operation input_entities tool_entities delete) s =
     (case boolean_operation base_id operation input_entities tool_entities delete s of
        (Inl err, s') \<Rightarrow> (None, s')
      | (Inr b, s') \<Rightarrow> (Some (id0 b), s'))"
| "oc_allocate base_id repr (New_oc_extrusion e t) s =
     (case oc_extrude repr e t s of
        (Inl err, s') \<Rightarrow> (None, s')
      | (Inr (top', extruded), s') \<Rightarrow> (Some (made_text top'), s'))"

fun oc_name_text :: "'n oc_alloc \<Rightarrow> int \<Rightarrow> string" where
  "oc_name_text (New_boolean operation input_entities tool_entities delete) n = ''bo'' @ fmt_d n"
| "oc_name_text (New_oc_extrusion e t) n = ''ex'' @ fmt_d n @ ''[0]''"

section \<open>Statements of the composite shapes\<close>




text \<open>
  A statement that defines a volume, \<^verbatim>\<open>Volume(...) = ...;\<close> of \<^verbatim>\<open>add_volume\<close> or
  \<^verbatim>\<open>Compound Volume(...) = {...};\<close> of \<^verbatim>\<open>add_compound_volume\<close>; and the two kinds of
  statement the extrusion loops append, an extrusion \<^verbatim>\<open>ex<n>[] = Extrude...\<close> and a comment.
\<close>

definition is_volume_statement :: "string \<Rightarrow> bool" where
  "is_volume_statement z = (startswith ''Volume('' z \<or> startswith ''Compound Volume('' z)"

definition extrusion_or_comment :: "string \<Rightarrow> bool" where
  "extrusion_or_comment z = (startswith ''ex'' z \<or> startswith ''// '' z)"

section \<open>The statement log only grows\<close>

lemma pre_append: "prefix xs (GMSH_CODE s) \<Longrightarrow> prefix xs (GMSH_CODE (append l s))"
  by (simp add: append_def)

lemma pre_append_if: "prefix xs (GMSH_CODE s) \<Longrightarrow> prefix xs (GMSH_CODE (append_if b l s))"
  by (simp add: append_if_def pre_append)

lemma pre_append_truthy: "prefix xs (GMSH_CODE s) \<Longrightarrow> prefix xs (GMSH_CODE (append_truthy v l s))"
  by (simp add: append_truthy_def pre_append split: option.split)

lemma pre_fold_append: "prefix xs (GMSH_CODE s) \<Longrightarrow> prefix xs (GMSH_CODE (fold append ls s))"
  by (induction ls arbitrary: s) (simp_all add: pre_append)

lemma pre_add: "prefix xs (GMSH_CODE s) \<Longrightarrow> prefix xs (GMSH_CODE (snd (add e s)))"
  by (simp add: add_def pre_append)

lemma pre_add_new: "prefix xs (GMSH_CODE s) \<Longrightarrow> prefix xs (GMSH_CODE (snd (add_new c s)))"
  by (simp add: add_new_def split_beta pre_add)

lemma pre_add_all: "prefix xs (GMSH_CODE s) \<Longrightarrow> prefix xs (GMSH_CODE (snd (add_all cs s)))"
  by (induction cs arbitrary: s) (simp_all add: split_beta pre_add_new)

lemma pre_add_ruled_surface:
  "prefix xs (GMSH_CODE s) \<Longrightarrow> prefix xs (GMSH_CODE (snd (add_ruled_surface l s)))"
  by (simp add: add_ruled_surface_def Let_def pre_append)

lemma pre_for_each_ruled:
  "prefix xs (GMSH_CODE s) \<Longrightarrow> prefix xs (GMSH_CODE (snd (for_each add_ruled_surface ls s)))"
  by (induction ls arbitrary: s) (simp_all add: split_beta pre_add_ruled_surface)

lemma pre_add_compound_surface:
  "prefix xs (GMSH_CODE s) \<Longrightarrow> prefix xs (GMSH_CODE (snd (add_compound_surface ss s)))"
  by (simp add: add_compound_surface_def Let_def pre_append)

lemma pre_add_surface_loop:
  "prefix xs (GMSH_CODE s) \<Longrightarrow> prefix xs (GMSH_CODE (snd (add_surface_loop ss s)))"
  by (simp add: add_surface_loop_def Let_def pre_append)

lemma pre_add_volume:
  "prefix xs (GMSH_CODE s) \<Longrightarrow> prefix xs (GMSH_CODE (snd (add_volume sl s)))"
  by (simp add: add_volume_def Let_def pre_append)

lemma pre_add_compound_volume:
  "prefix xs (GMSH_CODE s) \<Longrightarrow> prefix xs (GMSH_CODE (snd (add_compound_volume vs s)))"
  by (simp add: add_compound_volume_def Let_def pre_append)

lemma new_physical_group_code: "GMSH_CODE (snd (new_physical_group label s)) = GMSH_CODE s"
  by (simp add: new_physical_group_def Let_def split: option.split)

lemma pre_add_physical_point:
  "prefix xs (GMSH_CODE s) \<Longrightarrow> prefix xs (GMSH_CODE (snd (add_physical_point env h l s)))"
  by (simp add: add_physical_point_def split_beta pre_append new_physical_group_code)

lemma pre_add_physical_line:
  "prefix xs (GMSH_CODE s) \<Longrightarrow> prefix xs (GMSH_CODE (snd (add_physical_line env h l s)))"
  by (simp add: add_physical_line_def split_beta pre_append new_physical_group_code)

lemma pre_add_physical_surface:
  "prefix xs (GMSH_CODE s) \<Longrightarrow> prefix xs (GMSH_CODE (snd (add_physical_surface env h l s)))"
  by (simp add: add_physical_surface_def split_beta pre_append new_physical_group_code)

lemma pre_add_physical_volume:
  "prefix xs (GMSH_CODE s) \<Longrightarrow> prefix xs (GMSH_CODE (snd (add_physical_volume env h l s)))"
  by (simp add: add_physical_volume_def split_beta pre_append new_physical_group_code)

lemma pre_extrude:
  "prefix xs (GMSH_CODE s) \<Longrightarrow> prefix xs (GMSH_CODE (snd (extrude env e t r p a s)))"
  by (simp add: extrude_def Let_def pre_append split: option.split)

lemma pre_add_boundary_layer:
  "prefix xs (GMSH_CODE s) \<Longrightarrow>
   prefix xs (GMSH_CODE (snd (add_boundary_layer env es fs ns am hf hn ht ra th s)))"
  by (simp add: add_boundary_layer_def Let_def pre_append pre_append_if pre_append_truthy)

lemma pre_add_background_field:
  "prefix xs (GMSH_CODE s) \<Longrightarrow> prefix xs (GMSH_CODE (snd (add_background_field fs a s)))"
  by (simp add: add_background_field_def Let_def pre_append)

lemma pre_add_array:
  "prefix xs (GMSH_CODE s) \<Longrightarrow> prefix xs (GMSH_CODE (snd (add_array es s)))"
  by (simp add: add_array_def Let_def pre_append)

lemma pre_add_comment:
  "prefix xs (GMSH_CODE s) \<Longrightarrow> prefix xs (GMSH_CODE (snd (add_comment c s)))"
  by (simp add: add_comment_def pre_append)

lemma pre_add_raw_code:
  "prefix xs (GMSH_CODE s) \<Longrightarrow> prefix xs (GMSH_CODE (snd (add_raw_code c s)))"
  by (simp add: add_raw_code_def pre_append pre_fold_append split: raw_code.split)

lemma pre_add_polygon_loop:
  "prefix xs (GMSH_CODE s) \<Longrightarrow> prefix xs (GMSH_CODE (snd (add_polygon_loop env X lcar s)))"
  by (simp add: add_polygon_loop_def Let_def split_beta pre_add_all pre_add_new)

lemma pre_add_polygon:
  "prefix xs (GMSH_CODE s) \<Longrightarrow> prefix xs (GMSH_CODE (snd (add_polygon env X lcar holes s)))"
  using pre_add_polygon_loop [of xs s env X lcar]
  by (auto simp: add_polygon_def split_beta pre_add_new split: prod.split sum.split)

lemma pre_add_rectangle:
  "prefix xs (GMSH_CODE s) \<Longrightarrow>
   prefix xs (GMSH_CODE (snd (add_rectangle env xmin xmax ymin ymax z lcar holes s)))"
  by (simp add: add_rectangle_def pre_add_polygon)

lemma pre_add_ellipsoid:
  "prefix xs (GMSH_CODE s) \<Longrightarrow>
   prefix xs (GMSH_CODE (snd (add_ellipsoid env x0 radii lcar wv holes label s)))"
  by (simp add: add_ellipsoid_def Let_def split_beta pre_add_all pre_for_each_ruled
      pre_add_compound_surface pre_add_surface_loop pre_add_array pre_add_volume
      pre_add_physical_volume)

lemma pre_add_box:
  "prefix xs (GMSH_CODE s) \<Longrightarrow>
   prefix xs (GMSH_CODE (snd (add_box env x0 x1 y0 y1 z0 z1 lcar wv holes label s)))"
  by (simp add: add_box_def Let_def split_beta pre_add_all pre_for_each_ruled
      pre_add_surface_loop pre_add_array pre_add_volume pre_add_physical_volume)


lemma snd_case_result:
  "snd (case x of (Inl e, s) \<Rightarrow> (Inl e, s) | (Inr v, s) \<Rightarrow> f v s)
     = (case fst x of Inl e \<Rightarrow> snd x | Inr v \<Rightarrow> snd (f v (snd x)))"
  by (cases x; cases "fst x") auto

lemma pre_extrude_each:
  "prefix xs (GMSH_CODE s) \<Longrightarrow> prefix xs (GMSH_CODE (snd (extrude_each env r p a ls s)))"
  by (induction ls arbitrary: s)
     (simp_all add: snd_case_result split_beta pre_extrude split: sum.split)

lemma pre_extrude_rounds:
  "prefix xs (GMSH_CODE s) \<Longrightarrow>
   prefix xs (GMSH_CODE (snd (extrude_rounds env title r p a rng previous s)))"
  by (induction rng arbitrary: s previous)
     (simp_all add: snd_case_result split_beta pre_extrude_each pre_add_comment split: sum.split)

lemma pre_extrude_steps:
  "prefix xs (GMSH_CODE s) \<Longrightarrow>
   prefix xs (GMSH_CODE (snd (extrude_steps env r p k n previous s)))"
  by (induction n arbitrary: s previous)
     (simp_all add: snd_case_result split_beta pre_extrude split: sum.split)

lemma pre_add_torus_extrude_lines:
  "prefix xs (GMSH_CODE s) \<Longrightarrow>
   prefix xs (GMSH_CODE (snd (add_torus_extrude_lines env irad orad lcar R x0 label s)))"
proof -
  assume a: "prefix xs (GMSH_CODE s)"
  let ?s3 = "snd (add_new (Circle env (vec_add x0 (dot_mv R (0, orad, 0))) irad lcar (dot_mm R Rc) None None)
                (snd (add_comment ''Torus'' (snd (add_comment dashes s)))))"
  let ?c = "fst (add_new (Circle env (vec_add x0 (dot_mv R (0, orad, 0))) irad lcar (dot_mm R Rc) None None)
                (snd (add_comment ''Torus'' (snd (add_comment dashes s)))))"
  let ?r = "extrude_rounds env ''Round no. '' (dot_mv R (0, 0, 1)) (vec_add (dot_mv R (0, 0, 0)) x0)
              (Text ''2*Pi/3'') [0, 1, 2] (lines (line_loop ?c)) ?s3"
  have p3: "prefix xs (GMSH_CODE ?s3)"
    by (intro pre_add_new pre_add_comment a)
  have p4: "prefix xs (GMSH_CODE (snd ?r))"
    by (rule pre_extrude_rounds [OF p3])
  obtain r4 s4 where e: "?r = (r4, s4)" by (cases ?r)
  with p4 have p4': "prefix xs (GMSH_CODE s4)" by simp
  show ?thesis
    using e p4'
    by (cases r4)
       (simp_all add: add_torus_extrude_lines_def Let_def split_beta pre_add_comment
          pre_add_physical_volume pre_add_volume pre_add_surface_loop)
qed

lemma pre_add_torus_extrude_circle:
  "prefix xs (GMSH_CODE s) \<Longrightarrow>
   prefix xs (GMSH_CODE (snd (add_torus_extrude_circle env irad orad lcar R x0 label s)))"
proof -
  assume a: "prefix xs (GMSH_CODE s)"
  let ?s3 = "snd (add_new (Circle env (vec_add x0 (dot_mv R (0, orad, 0))) irad lcar (dot_mm R Rc) None None)
                (snd (add_comment ''Torus'' (snd (add_comment dashes s)))))"
  let ?c = "fst (add_new (Circle env (vec_add x0 (dot_mv R (0, orad, 0))) irad lcar (dot_mm R Rc) None None)
                (snd (add_comment ''Torus'' (snd (add_comment dashes s)))))"
  let ?r = "extrude_steps env (dot_mv R (0, 0, 1)) (vec_add (dot_mv R (0, 0, 0)) x0) 3 (nat 3)
              (plane_surface ?c) ?s3"
  have p3: "prefix xs (GMSH_CODE ?s3)"
    by (intro pre_add_new pre_add_comment a)
  have p4: "prefix xs (GMSH_CODE (snd ?r))"
    by (rule pre_extrude_steps [OF p3])
  obtain r4 s4 where e: "?r = (r4, s4)" by (cases ?r)
  with p4 have p4': "prefix xs (GMSH_CODE s4)" by simp
  show ?thesis
    using e p4'
    by (cases r4)
       (simp_all add: add_torus_extrude_circle_def Let_def split_beta pre_add_comment
          pre_add_physical_volume pre_add_compound_volume)
qed

lemma pre_add_torus:
  "prefix xs (GMSH_CODE s) \<Longrightarrow>
   prefix xs (GMSH_CODE (snd (add_torus env irad orad lcar R x0 label variant s)))"
  by (simp add: add_torus_def pre_add_torus_extrude_lines pre_add_torus_extrude_circle)

lemma pre_add_pipe_by_rectangle_rotation:
  "prefix xs (GMSH_CODE s) \<Longrightarrow>
   prefix xs (GMSH_CODE (snd (add_pipe_by_rectangle_rotation env outer_radius inner_radius len R x0 label lcar s)))"
proof -
  assume a: "prefix xs (GMSH_CODE s)"
  let ?s1 = "snd (add_comment ''Define rectangle.'' s)"
  let ?X = "map (\<lambda>x. vec_add (dot_mv R x) x0)
              [(0, outer_radius, (- half) * len), (0, outer_radius, half * len),
               (0, inner_radius, half * len), (0, inner_radius, (- half) * len)]"
  let ?a2 = "add_all (map (\<lambda>x. Point env (vlist x) lcar) ?X) ?s1"
  let ?p = "fst ?a2"
  let ?a3 = "add_all [Line env (?p ! 0) (?p ! 1), Line env (?p ! 1) (?p ! 2),
                      Line env (?p ! 2) (?p ! 3), Line env (?p ! 3) (?p ! 0)] (snd ?a2)"
  let ?s4 = "snd (add_comment ''Extrude in 3 steps.'' (snd ?a3))"
  let ?r = "extrude_rounds env ''Step '' (dot_mv R (0, 0, 1)) (vec_add (dot_mv R (0, 0, 0)) x0)
              (Text ''2*Pi/3'') [0, 1, 2] (fst ?a3) ?s4"
  have p4: "prefix xs (GMSH_CODE ?s4)"
    by (intro pre_add_comment pre_add_all a)
  have p5: "prefix xs (GMSH_CODE (snd ?r))"
    by (rule pre_extrude_rounds [OF p4])
  obtain r5 s5 where e: "?r = (r5, s5)" by (cases ?r)
  with p5 have p5': "prefix xs (GMSH_CODE s5)" by simp
  show ?thesis
    using e p5'
    by (cases r5)
       (simp_all add: add_pipe_by_rectangle_rotation_def Let_def split_beta
          pre_add_physical_volume pre_add_volume pre_add_surface_loop
          del: add_all.simps extrude_rounds.simps list.map)
qed

lemma pre_add_pipe_by_circle_extrusion:
  "prefix xs (GMSH_CODE s) \<Longrightarrow>
   prefix xs (GMSH_CODE (snd (add_pipe_by_circle_extrusion env outer_radius inner_radius len R x0 label lcar s)))"
proof -
  assume a: "prefix xs (GMSH_CODE s)"
  let ?a1 = "add_new (Circle env x0 inner_radius lcar (dot_mm R Rc) (Some False) None) s"
  let ?a2 = "add_new (Circle env x0 outer_radius lcar (dot_mm R Rc) None (Some [line_loop (fst ?a1)])) (snd ?a1)"
  let ?r = "extrude env (Str (''Surface{'' @ id' (plane_surface (fst ?a2)) @ ''}''))
              (Some (dot_mv R (len, 0, 0))) None None NoneVal (snd ?a2)"
  have p3: "prefix xs (GMSH_CODE (snd ?r))"
    by (intro pre_extrude pre_add_new a)
  obtain r3 s3 where e: "?r = (r3, s3)" by (cases ?r)
  with p3 have p3': "prefix xs (GMSH_CODE s3)" by simp
  show ?thesis
    using e p3'
    by (cases r3)
       (simp_all add: add_pipe_by_circle_extrusion_def Let_def split_beta pre_add_physical_volume)
qed

lemma pre_add_pipe:
  "prefix xs (GMSH_CODE s) \<Longrightarrow>
   prefix xs (GMSH_CODE (snd (add_pipe env outer_radius inner_radius len R x0 label lcar variant s)))"
  by (simp add: add_pipe_def pre_add_pipe_by_rectangle_rotation pre_add_pipe_by_circle_extrusion)

lemma pre_perform: "prefix xs (GMSH_CODE s) \<Longrightarrow> prefix xs (GMSH_CODE (perform env c s))"
  by (cases c)
     (simp_all add: add_ball_def pre_add pre_add_ruled_surface pre_add_compound_surface pre_add_surface_loop
        pre_add_volume pre_add_compound_volume pre_add_physical_point pre_add_physical_line
        pre_add_physical_surface pre_add_physical_volume pre_extrude pre_add_boundary_layer
        pre_add_background_field pre_add_array pre_add_comment pre_add_raw_code pre_add_rectangle
        pre_add_polygon_loop pre_add_polygon pre_add_ellipsoid pre_add_box pre_add_torus pre_add_pipe)

text \<open>
  Claim C8. The statement log is append-only: whatever public method of the session is
  called, and whether the call completes or fails, the log before the call is a prefix
  of the log after it; so it is after any sequence of calls. No statement once appended
  is edited, reordered or removed.
\<close>

theorem statement_log_is_append_only:
  "prefix (GMSH_CODE s) (GMSH_CODE (perform env c s))
   \<and> prefix (GMSH_CODE s) (GMSH_CODE (fold (perform env) cs s))"
proof
  show "prefix (GMSH_CODE s) (GMSH_CODE (perform env c s))"
    by (rule pre_perform) simp
  have "prefix xs (GMSH_CODE s) \<Longrightarrow> prefix xs (GMSH_CODE (fold (perform env) cs s))" for xs
    by (induction cs arbitrary: s) (simp_all add: pre_perform)
  then show "prefix (GMSH_CODE s) (GMSH_CODE (fold (perform env) cs s))" by simp
qed

section \<open>Extrusion without parameters\<close>

text \<open>
  Claim C5. A call of \<^verbatim>\<open>extrude\<close> on the built-in session with \<^verbatim>\<open>translation_axis\<close>,
  \<^verbatim>\<open>rotation_axis\<close>, \<^verbatim>\<open>point_on_axis\<close> and \<^verbatim>\<open>angle\<close> all absent fails with the
  configuration error and leaves the statement log exactly as it was.
\<close>

theorem extrude_needs_an_axis:
  "fst (extrude env entity None None None NoneVal s)
     = Inl (RuntimeError ''Specify at least translation or rotation.'')
   \<and> GMSH_CODE (snd (extrude env entity None None None NoneVal s)) = GMSH_CODE s"
  by (simp add: extrude_def Let_def)

section \<open>Ball and ellipsoid\<close>

text \<open>
  Claim C9. For every midpoint, radius and remaining arguments, \<^verbatim>\<open>add_ball(x0, r, ...)\<close>
  returns the same handles and leaves the same session, hence appends the same
  statements, as \<^verbatim>\<open>add_ellipsoid(x0, [r, r, r], ...)\<close>.
\<close>

theorem add_ball_is_add_ellipsoid:
  "add_ball env x0 radius lcar with_volume holes label s
     = add_ellipsoid env x0 (radius, radius, radius) lcar with_volume holes label s"
  by (simp add: add_ball_def)

section \<open>The serialized text\<close>

lemma ends_in_newline_snoc: "ends_in_newline (t @ [c]) = (c = newline)"
  by (simp add: ends_in_newline_def)

text \<open>
  Claim C1 says that the text \<^verbatim>\<open>get_code\<close> returns ends in a newline. It is the log
  joined by newlines, with none after the last line: the text of a fresh session, of
  either kernel and whatever the version, ends in the last character of its last
  statement, a full stop or a semicolon.
\<close>

theorem fresh_session_code_has_no_final_newline:
  "\<not> ends_in_newline (get_code (init version g))
   \<and> \<not> ends_in_newline (oc_get_code (oc_init version gmsh_major str None None))"
proof -
  have a: "get_code (init version g) = (''// This code was created by PyGmsh v'' @ version) @ [CHR ''.'']"
    by (simp add: get_code_def init_def header_def)
  have b: "oc_get_code (oc_init version gmsh_major str None None)
      = (''// This code was created by PyGmsh v'' @ version @ ''.'' @ [newline]
          @ ''SetFactory('' @ [dquote] @ ''OpenCASCADE'' @ [dquote] @ '')'') @ [CHR '';'']"
    by (simp add: oc_get_code_def oc_init_def)
  show ?thesis
    unfolding a b ends_in_newline_snoc by (simp add: newline_def)
qed

section \<open>Boolean operations\<close>

text \<open>
  Claim C2 says that every boolean operation called with fewer than two entities fails
  before a statement is appended. \<^verbatim>\<open>boolean_intersection\<close> asserts it; \<^verbatim>\<open>boolean_union\<close>
  called with a single surface returns a new entity and appends a statement whose tool
  list is empty.
\<close>

theorem boolean_union_of_one_entity_succeeds:
  "boolean_union base_id [\<lparr>dim = Some SurfaceBase, oid = ''s1''\<rparr>] True s
     = (Inr \<lparr>dim = Some SurfaceBase, oid = base_id SurfaceBase (''bo'' @ fmt_d (BOOLEAN_ID s + 1)) True,
             id0 = ''bo'' @ fmt_d (BOOLEAN_ID s + 1), is_list = True\<rparr>,
        s\<lparr>BOOLEAN_ID := BOOLEAN_ID s + 1,
          GMSH_CODE_oc := GMSH_CODE_oc s @
            [''bo'' @ fmt_d (BOOLEAN_ID s + 1)
             @ ''[] = BooleanUnion{Surface {s1}; Delete;} {Surface {}; Delete;};'']\<rparr>)"
  by (simp add: boolean_union_def boolean_operation_def Let_def legal_dim_types_def)

lemma boolean_operation_empty:
  "boolean_operation base_id operation [] tool_entities delete s
     = (Inl IndexError, s\<lparr>BOOLEAN_ID := BOOLEAN_ID s + 1\<rparr>)"
  by (simp add: boolean_operation_def)

lemma boolean_operation_mismatch:
  assumes "input_entities \<noteq> []" and "\<And>d. \<not> same_dim (input_entities @ tool_entities) d"
  shows "\<exists>a. boolean_operation base_id operation input_entities tool_entities delete s
           = (Inl (AssertionError a), s\<lparr>BOOLEAN_ID := BOOLEAN_ID s + 1\<rparr>)"
proof -
  from assms(1) obtain e0 es where ie: "input_entities = e0 # es"
    by (cases input_entities) auto
  show ?thesis
  proof (cases "dim e0")
    case None
    then show ?thesis by (simp add: boolean_operation_def ie)
  next
    case (Some d)
    with assms(2) [of d] have "\<not> list_all (\<lambda>e. dim e = Some d) (es @ tool_entities)"
      by (simp add: same_dim_def ie)
    with Some show ?thesis by (simp add: boolean_operation_def ie)
  qed
qed

lemma boolean_operation_uniform:
  assumes "input_entities \<noteq> []" and "same_dim (input_entities @ tool_entities) d"
  shows "boolean_operation base_id operation input_entities tool_entities delete s
           = (Inr \<lparr>dim = Some d, oid = base_id d (''bo'' @ fmt_d (BOOLEAN_ID s + 1)) True,
                   id0 = ''bo'' @ fmt_d (BOOLEAN_ID s + 1), is_list = True\<rparr>,
              s\<lparr>BOOLEAN_ID := BOOLEAN_ID s + 1,
                GMSH_CODE_oc := GMSH_CODE_oc s @
                  [''bo'' @ fmt_d (BOOLEAN_ID s + 1) @ ''[] = '' @ operation @ ''{'' @ legal_dim_types d
                   @ '' {'' @ join '','' (map oid input_entities) @ ''}; ''
                   @ (if delete then ''Delete;'' else []) @ ''} {'' @ legal_dim_types d
                   @ '' {'' @ join '','' (map oid tool_entities) @ ''}; ''
                   @ (if delete then ''Delete;'' else []) @ ''};'']\<rparr>)"
proof -
  from assms(1) obtain e0 es where ie: "input_entities = e0 # es"
    by (cases input_entities) auto
  from assms(2) have "dim e0 = Some d" "list_all (\<lambda>e. dim e = Some d) (es @ tool_entities)"
    by (simp_all add: same_dim_def ie)
  then show ?thesis
    by (simp add: boolean_operation_def ie Let_def)
qed

text \<open>
  Claim C4, for a call of the dispatcher \<^verbatim>\<open>_boolean_operation\<close> with at least one input
  entity: when the input and tool entities do not all share one dimensional type, the
  call fails with an assertion error and appends nothing; when they all share the type
  \<open>d\<close>, the call succeeds, appends exactly one statement and returns a new entity of type
  \<open>d\<close> flagged as a list. With no input entity the call fails with an index error and
  appends nothing, whatever the tool entities are.
\<close>

theorem boolean_operation_dimension_check:
  "(input_entities \<noteq> [] \<and> (\<forall>d. \<not> same_dim (input_entities @ tool_entities) d) \<longrightarrow>
      (\<exists>a. fst (boolean_operation base_id operation input_entities tool_entities delete s)
              = Inl (AssertionError a))
      \<and> GMSH_CODE_oc (snd (boolean_operation base_id operation input_entities tool_entities delete s))
          = GMSH_CODE_oc s)
   \<and> (input_entities \<noteq> [] \<and> same_dim (input_entities @ tool_entities) d \<longrightarrow>
      (\<exists>r line. fst (boolean_operation base_id operation input_entities tool_entities delete s) = Inr r
         \<and> dim r = Some d \<and> is_list r
         \<and> GMSH_CODE_oc (snd (boolean_operation base_id operation input_entities tool_entities delete s))
             = GMSH_CODE_oc s @ [line]))
   \<and> fst (boolean_operation base_id operation [] tool_entities delete s) = Inl IndexError
   \<and> GMSH_CODE_oc (snd (boolean_operation base_id operation [] tool_entities delete s)) = GMSH_CODE_oc s"
proof (intro conjI impI)
  assume h: "input_entities \<noteq> [] \<and> (\<forall>d. \<not> same_dim (input_entities @ tool_entities) d)"
  then obtain a where
    "boolean_operation base_id operation input_entities tool_entities delete s
       = (Inl (AssertionError a), s\<lparr>BOOLEAN_ID := BOOLEAN_ID s + 1\<rparr>)"
    using boolean_operation_mismatch [of input_entities tool_entities base_id operation delete s] by auto
  then show "\<exists>a. fst (boolean_operation base_id operation input_entities tool_entities delete s)
              = Inl (AssertionError a)"
    and "GMSH_CODE_oc (snd (boolean_operation base_id operation input_entities tool_entities delete s))
          = GMSH_CODE_oc s"
    by simp_all
next
  assume h: "input_entities \<noteq> [] \<and> same_dim (input_entities @ tool_entities) d"
  then show "\<exists>r line. fst (boolean_operation base_id operation input_entities tool_entities delete s) = Inr r
         \<and> dim r = Some d \<and> is_list r
         \<and> GMSH_CODE_oc (snd (boolean_operation base_id operation input_entities tool_entities delete s))
             = GMSH_CODE_oc s @ [line]"
    using boolean_operation_uniform [of input_entities tool_entities d base_id operation delete s]
    by simp
qed (simp_all add: boolean_operation_empty)

text \<open>
  As claim C4 is worded, a call whose entities all share one dimensional type succeeds.
  With an empty input list and one surface as tool all entities are surfaces, and the
  call fails.
\<close>

theorem boolean_operation_empty_input_counterexample:
  "same_dim ([] @ [surface1]) SurfaceBase
   \<and> fst (boolean_operation list_id ''BooleanFragments'' [] [surface1] True oc_session0) = Inl IndexError"
  by (simp add: same_dim_def surface1_def boolean_operation_empty)

text \<open>The statement of claim C4 on a surface with a line, and on two surfaces.\<close>

theorem boolean_operation_dimension_check_witness:
  "(\<exists>a. fst (boolean_operation list_id ''BooleanUnion'' [surface1] [line1] True oc_session0)
            = Inl (AssertionError a))
   \<and> GMSH_CODE_oc (snd (boolean_operation list_id ''BooleanUnion'' [surface1] [line1] True oc_session0))
       = GMSH_CODE_oc oc_session0
   \<and> (\<exists>r line. fst (boolean_operation list_id ''BooleanUnion'' [surface1] [surface1] True oc_session0) = Inr r
         \<and> dim r = Some SurfaceBase \<and> is_list r
         \<and> GMSH_CODE_oc (snd (boolean_operation list_id ''BooleanUnion'' [surface1] [surface1] True oc_session0))
             = GMSH_CODE_oc oc_session0 @ [line])"
proof -
  have a: "[surface1] \<noteq> [] \<and> (\<forall>d. \<not> same_dim ([surface1] @ [line1]) d)"
    by (simp add: same_dim_def surface1_def line1_def)
  have b: "[surface1] \<noteq> [] \<and> same_dim ([surface1] @ [surface1]) SurfaceBase"
    by (simp add: same_dim_def surface1_def)
  from a b
    boolean_operation_dimension_check [of "[surface1]" "[line1]" list_id "''BooleanUnion''" True oc_session0]
    boolean_operation_dimension_check [of "[surface1]" "[surface1]" list_id "''BooleanUnion''" True oc_session0 SurfaceBase]
  show ?thesis by blast
qed

section \<open>Failed calls and the counters\<close>

lemma extrude_result:
  "fst (extrude env entity t r p a s) = Inr (top', extruded) \<Longrightarrow>
   top' = Dummy (''ex'' @ fmt_d (EXTRUDE_ID s + 1) @ ''[0]'')
   \<and> extruded = Dummy (''ex'' @ fmt_d (EXTRUDE_ID s + 1) @ ''[1]'')"
  by (auto simp: extrude_def Let_def split: option.splits)

lemma boolean_operation_result:
  "fst (boolean_operation base_id operation input_entities tool_entities delete s) = Inr b \<Longrightarrow>
   id0 b = ''bo'' @ fmt_d (BOOLEAN_ID s + 1)"
  by (auto simp: boolean_operation_def Let_def split: list.splits option.splits if_splits)

text \<open>
  Claim C10. A call of \<^verbatim>\<open>extrude\<close> (built-in kernel) that fails for want of a translation
  and a rotation has incremented \<^verbatim>\<open>_EXTRUDE_ID\<close> and left the log unchanged, so that the
  next call that succeeds names its result with the number after the next. So it is for
  \<^verbatim>\<open>_BOOLEAN_ID\<close> when a boolean operation (OpenCASCADE kernel) fails the check of the
  dimensional types.
\<close>

theorem failed_call_skips_a_sequence_number:
  "extrude env entity None None None NoneVal s
     = (Inl (RuntimeError ''Specify at least translation or rotation.''),
        s\<lparr>EXTRUDE_ID := EXTRUDE_ID s + 1\<rparr>)
   \<and> GMSH_CODE (snd (extrude env entity None None None NoneVal s)) = GMSH_CODE s
   \<and> (fst (extrude env entity' t r p a (snd (extrude env entity None None None NoneVal s)))
         = Inr (top', extruded) \<longrightarrow>
       id' top' = ''ex'' @ fmt_d (EXTRUDE_ID s + 2) @ ''[0]''
       \<and> id' extruded = ''ex'' @ fmt_d (EXTRUDE_ID s + 2) @ ''[1]'')
   \<and> (input_entities \<noteq> [] \<and> (\<forall>d. \<not> same_dim (input_entities @ tool_entities) d) \<longrightarrow>
       (\<exists>a. fst (boolean_operation base_id operation input_entities tool_entities delete o_s)
               = Inl (AssertionError a))
       \<and> snd (boolean_operation base_id operation input_entities tool_entities delete o_s)
           = o_s\<lparr>BOOLEAN_ID := BOOLEAN_ID o_s + 1\<rparr>
       \<and> (fst (boolean_operation base_id operation' input_entities' tool_entities' delete'
                 (snd (boolean_operation base_id operation input_entities tool_entities delete o_s)))
             = Inr b \<longrightarrow>
           id0 b = ''bo'' @ fmt_d (BOOLEAN_ID o_s + 2)))"
proof -
  have e1: "extrude env entity None None None NoneVal s
     = (Inl (RuntimeError ''Specify at least translation or rotation.''),
        s\<lparr>EXTRUDE_ID := EXTRUDE_ID s + 1\<rparr>)"
    by (simp add: extrude_def Let_def)
  have e2: "id' top' = ''ex'' @ fmt_d (EXTRUDE_ID s + 2) @ ''[0]''
       \<and> id' extruded = ''ex'' @ fmt_d (EXTRUDE_ID s + 2) @ ''[1]''"
    if "fst (extrude env entity' t r p a (snd (extrude env entity None None None NoneVal s)))
         = Inr (top', extruded)"
    using extrude_result [OF that] by (simp add: e1 Dummy_def add.commute)
  have b: "(\<exists>a. fst (boolean_operation base_id operation input_entities tool_entities delete o_s)
               = Inl (AssertionError a))
       \<and> snd (boolean_operation base_id operation input_entities tool_entities delete o_s)
           = o_s\<lparr>BOOLEAN_ID := BOOLEAN_ID o_s + 1\<rparr>
       \<and> (fst (boolean_operation base_id operation' input_entities' tool_entities' delete'
                 (snd (boolean_operation base_id operation input_entities tool_entities delete o_s)))
             = Inr b \<longrightarrow>
           id0 b = ''bo'' @ fmt_d (BOOLEAN_ID o_s + 2))"
    if h: "input_entities \<noteq> [] \<and> (\<forall>d. \<not> same_dim (input_entities @ tool_entities) d)"
  proof -
    from h obtain a where
      m: "boolean_operation base_id operation input_entities tool_entities delete o_s
           = (Inl (AssertionError a), o_s\<lparr>BOOLEAN_ID := BOOLEAN_ID o_s + 1\<rparr>)"
      using boolean_operation_mismatch [of input_entities tool_entities base_id operation delete o_s]
      by auto
    show ?thesis
      using boolean_operation_result [of base_id operation' input_entities' tool_entities' delete'
          "o_s\<lparr>BOOLEAN_ID := BOOLEAN_ID o_s + 1\<rparr>" b]
      by (auto simp: m add.commute)
  qed
  from e1 e2 b show ?thesis by simp
qed

text \<open>The statement of claim C10 on fresh sessions: the names are \<^verbatim>\<open>ex2\<close> and \<^verbatim>\<open>bo2\<close>.\<close>

theorem failed_call_skips_a_sequence_number_witness:
  "fst (extrude sample_env (Str ''Line{l1}'') (Some (0, 0, 1)) None None NoneVal
          (snd (extrude sample_env (Str ''Line{l1}'') None None None NoneVal session0)))
     = Inr (Dummy ''ex2[0]'', Dummy ''ex2[1]'')
   \<and> (\<exists>a. fst (boolean_operation list_id ''BooleanUnion'' [surface1] [line1] True oc_session0)
            = Inl (AssertionError a))
   \<and> fst (boolean_operation list_id ''BooleanUnion'' [surface1] [surface1] True
            (snd (boolean_operation list_id ''BooleanUnion'' [surface1] [line1] True oc_session0)))
       = Inr \<lparr>dim = Some SurfaceBase, oid = ''bo2[]'', id0 = ''bo2'', is_list = True\<rparr>"
proof -
  have x: "fst (extrude sample_env (Str ''Line{l1}'') (Some (0, 0, 1)) None None NoneVal
          (snd (extrude sample_env (Str ''Line{l1}'') None None None NoneVal session0)))
     = Inr (Dummy ''ex2[0]'', Dummy ''ex2[1]'')"
    by (simp add: extrude_def Let_def session0_def init_def fmt_d_def str_nat.simps digit_def)
  have a: "[surface1] \<noteq> [] \<and> (\<forall>d. \<not> same_dim ([surface1] @ [line1]) d)"
    by (simp add: same_dim_def surface1_def line1_def)
  have y: "fst (boolean_operation list_id ''BooleanUnion'' [surface1] [surface1] True
            (snd (boolean_operation list_id ''BooleanUnion'' [surface1] [line1] True oc_session0)))
       = Inr \<lparr>dim = Some SurfaceBase, oid = ''bo2[]'', id0 = ''bo2'', is_list = True\<rparr>"
    by (simp add: boolean_operation_def Let_def surface1_def line1_def oc_session0_def oc_init_def
        list_id_def fmt_d_def str_nat.simps digit_def)
  from x a y
    failed_call_skips_a_sequence_number [of sample_env "Str ''Line{l1}''" session0 "Str ''Line{l1}''"
      "Some (0, 0, 1)" None None NoneVal "Dummy ''ex2[0]''" "Dummy ''ex2[1]''"
      "[surface1]" "[line1]" list_id "''BooleanUnion''" True oc_session0
      "''BooleanUnion''" "[surface1]" "[surface1]" True
      "\<lparr>dim = Some SurfaceBase, oid = ''bo2[]'', id0 = ''bo2'', is_list = True\<rparr>"]
  show ?thesis by blast
qed

section \<open>Names are unique\<close>

lemma lt10_cases: "d < 10 \<Longrightarrow> d \<in> {0, 1, 2, 3, 4, 5, 6, 7, 8, 9::nat}"
  by auto

lemma digit_val_digit: "d < 10 \<Longrightarrow> digit_val (digit d) = d"
  by (drule lt10_cases) (auto simp: digit_val_def digit_def)

lemma is_digit_digit: "d < 10 \<Longrightarrow> is_digit (digit d)"
  by (drule lt10_cases) (auto simp: is_digit_def digit_def)

lemma decimal_val_str_nat: "decimal_val (str_nat n) = n"
proof (induction n rule: str_nat.induct)
  case (1 n)
  show ?case
  proof (cases "n < 10")
    case True
    then show ?thesis
      by (subst str_nat.simps) (simp add: decimal_val_def digit_val_digit)
  next
    case False
    with 1 have "decimal_val (str_nat (n div 10)) = n div 10" by simp
    with False show ?thesis
      by (subst str_nat.simps) (simp add: decimal_val_def digit_val_digit)
  qed
qed

lemma str_nat_inj: "str_nat m = str_nat n \<Longrightarrow> m = n"
  by (metis decimal_val_str_nat)

lemma str_nat_digits: "list_all is_digit (str_nat n)"
proof (induction n rule: str_nat.induct)
  case (1 n)
  show ?case
  proof (cases "n < 10")
    case True
    then show ?thesis by (subst str_nat.simps) (simp add: is_digit_digit)
  next
    case False
    with 1 have "list_all is_digit (str_nat (n div 10))" by simp
    with False show ?thesis by (subst str_nat.simps) (simp add: is_digit_digit)
  qed
qed

lemma str_nat_nonempty: "str_nat n \<noteq> []"
  by (subst str_nat.simps) simp

lemma str_nat_head: "str_nat n = c # cs \<Longrightarrow> is_digit c"
  using str_nat_digits [of n] by simp

lemma fmt_d_head: "fmt_d i = c # cs \<Longrightarrow> is_num_char c"
  by (auto simp: fmt_d_def is_num_char_def split: if_splits dest: str_nat_head)

lemma fmt_d_nonempty: "fmt_d i \<noteq> []"
  by (simp add: fmt_d_def str_nat_nonempty)

lemma fmt_d_inj: "fmt_d i = fmt_d j \<Longrightarrow> i = j"
proof -
  have m: "\<not> is_digit CHR ''-''" by (simp add: is_digit_def)
  assume a: "fmt_d i = fmt_d j"
  show ?thesis
  proof (cases "i < 0"; cases "j < 0")
    assume "i < 0" "j < 0"
    with a have "nat (- i) = nat (- j)" by (simp add: fmt_d_def str_nat_inj)
    with \<open>i < 0\<close> \<open>j < 0\<close> show ?thesis by simp
  next
    assume "i < 0" "\<not> j < 0"
    with a have "str_nat (nat j) = CHR ''-'' # str_nat (nat (- i))" by (simp add: fmt_d_def)
    from str_nat_head [OF this] m show ?thesis by simp
  next
    assume "\<not> i < 0" "j < 0"
    with a have "str_nat (nat i) = CHR ''-'' # str_nat (nat (- j))" by (simp add: fmt_d_def)
    from str_nat_head [OF this] m show ?thesis by simp
  next
    assume "\<not> i < 0" "\<not> j < 0"
    with a have "nat i = nat j" by (simp add: fmt_d_def str_nat_inj)
    with \<open>\<not> i < 0\<close> \<open>\<not> j < 0\<close> show ?thesis by simp
  qed
qed

lemma fmt_d_not_letter [simp]:
  "\<not> is_num_char c \<Longrightarrow> fmt_d i \<noteq> c # cs" "\<not> is_num_char c \<Longrightarrow> c # cs \<noteq> fmt_d i"
  using fmt_d_head [of i c cs] by auto

lemma fmt_d_eq_iff [simp]: "fmt_d i = fmt_d j \<longleftrightarrow> i = j"
  using fmt_d_inj by auto

lemma name_text_inj:
  "name_text a m = name_text b n \<Longrightarrow> category_of a = category_of b \<and> m = n"
  by (cases a; cases b) (auto simp: is_num_char_def is_digit_def)


lemma counter_append [simp]: "counter c (append l s) = counter c s"
  by (simp add: counter_def append_def split: category.split)

lemma counter_append_if [simp]: "counter c (append_if b l s) = counter c s"
  by (simp add: append_if_def)

lemma counter_append_truthy [simp]: "counter c (append_truthy v l s) = counter c s"
  by (simp add: append_truthy_def split: option.split)

lemma allocate_name:
  "fst (allocate env a s) = Some x \<Longrightarrow> x = name_text a (counter (category_of a) s + 1)"
  by (cases a)
     (auto simp: counter_def add_ruled_surface_def add_compound_surface_def add_surface_loop_def
        add_volume_def add_compound_volume_def extrude_def add_boundary_layer_def
        add_background_field_def add_array_def new_physical_group_def Let_def Dummy_def
        split: option.splits)

lemma allocate_counter:
  "counter c (snd (allocate env a s)) = (if c = category_of a then counter c s + 1 else counter c s)"
  by (cases a; cases c)
     (simp_all add: add_ruled_surface_def add_compound_surface_def add_surface_loop_def
        add_volume_def add_compound_volume_def extrude_def add_boundary_layer_def
        add_background_field_def add_array_def new_physical_group_def Let_def
        split: option.split,
      simp_all add: counter_def)

lemma allocated_above:
  fixes env :: "('n::zero, 'g) env"
  shows "x \<in> set (somes (fst (for_each (allocate env) as s))) \<Longrightarrow>
   \<exists>(a::'n alloc) n. x = name_text a n \<and> counter (category_of a) s < n"
proof (induction as arbitrary: s)
  case Nil
  then show ?case by simp
next
  case (Cons a as)
  let ?s' = "snd (allocate env a s)"
  have le: "counter c s \<le> counter c ?s'" for c
    by (simp add: allocate_counter)
  from Cons.prems consider
      (head) "fst (allocate env a s) = Some x"
    | (tail) "x \<in> set (somes (fst (for_each (allocate env) as ?s')))"
    by (cases "fst (allocate env a s)") (auto simp: split_beta)
  then show ?case
  proof cases
    case head
    from allocate_name [OF head] show ?thesis by force
  next
    case tail
    from Cons.IH [OF tail] obtain b :: "'n alloc" and n
      where "x = name_text b n" "counter (category_of b) ?s' < n"
      by blast
    with le [of "category_of b"] show ?thesis by force
  qed
qed

lemma allocated_distinct:
  fixes env :: "('n::zero, 'g) env"
  shows "distinct (somes (fst (for_each (allocate env) as s)))"
proof (induction as arbitrary: s)
  case Nil
  then show ?case by simp
next
  case (Cons a as)
  let ?s' = "snd (allocate env a s)"
  let ?rest = "somes (fst (for_each (allocate env) as ?s'))"
  show ?case
  proof (cases "fst (allocate env a s)")
    case None
    with Cons.IH [of ?s'] show ?thesis by (simp add: split_beta)
  next
    case (Some x)
    have "x \<notin> set ?rest"
    proof
      assume "x \<in> set ?rest"
      from allocated_above [OF this] obtain b :: "'n alloc" and n where
        b: "x = name_text b n" "counter (category_of b) ?s' < n" by blast
      from allocate_name [OF Some] b(1)
      have "name_text a (counter (category_of a) s + 1) = name_text b n" by simp
      from name_text_inj [OF this] b(2) show False
        by (auto simp: allocate_counter)
    qed
    with Some Cons.IH [of ?s'] show ?thesis by (simp add: split_beta)
  qed
qed

lemma boolean_call_name:
  "fst (boolean_call base_id c s) = Some x \<Longrightarrow> x = ''bo'' @ fmt_d (BOOLEAN_ID s + 1)"
  by (auto simp: boolean_call_def boolean_operation_def Let_def
      split: prod.splits sum.splits list.splits option.splits if_splits)

lemma boolean_call_counter: "BOOLEAN_ID (snd (boolean_call base_id c s)) = BOOLEAN_ID s + 1"
  by (auto simp: boolean_call_def boolean_operation_def Let_def
      split: prod.splits sum.splits list.splits option.splits if_splits)

lemma boolean_above:
  "x \<in> set (somes (fst (for_each (boolean_call base_id) cs s))) \<Longrightarrow>
   \<exists>n. x = ''bo'' @ fmt_d n \<and> BOOLEAN_ID s < n"
proof (induction cs arbitrary: s)
  case Nil
  then show ?case by simp
next
  case (Cons c cs)
  let ?s' = "snd (boolean_call base_id c s)"
  from Cons.prems consider
      (head) "fst (boolean_call base_id c s) = Some x"
    | (tail) "x \<in> set (somes (fst (for_each (boolean_call base_id) cs ?s')))"
    by (cases "fst (boolean_call base_id c s)") (auto simp: split_beta)
  then show ?case
  proof cases
    case head
    from boolean_call_name [OF head] show ?thesis by force
  next
    case tail
    from Cons.IH [OF tail] obtain n where "x = ''bo'' @ fmt_d n" "BOOLEAN_ID ?s' < n"
      by blast
    then show ?thesis by (force simp: boolean_call_counter)
  qed
qed

lemma boolean_distinct: "distinct (somes (fst (for_each (boolean_call base_id) cs s)))"
proof (induction cs arbitrary: s)
  case Nil
  then show ?case by simp
next
  case (Cons c cs)
  let ?s' = "snd (boolean_call base_id c s)"
  let ?rest = "somes (fst (for_each (boolean_call base_id) cs ?s'))"
  show ?case
  proof (cases "fst (boolean_call base_id c s)")
    case None
    with Cons.IH [of ?s'] show ?thesis by (simp add: split_beta)
  next
    case (Some x)
    have "x \<notin> set ?rest"
    proof
      assume "x \<in> set ?rest"
      from boolean_above [OF this] obtain n where
        n: "x = ''bo'' @ fmt_d n" "BOOLEAN_ID ?s' < n" by blast
      from boolean_call_name [OF Some] n show False
        by (simp add: boolean_call_counter)
    qed
    with Some Cons.IH [of ?s'] show ?thesis by (simp add: split_beta)
  qed
qed

lemma for_each_allocate_counter:
  "counter c s \<le> counter c (snd (for_each (allocate env) as s))"
proof (induction as arbitrary: s)
  case Nil
  then show ?case by simp
next
  case (Cons a as)
  have "counter c s \<le> counter c (snd (allocate env a s))"
    by (simp add: allocate_counter)
  also have "\<dots> \<le> counter c (snd (for_each (allocate env) as (snd (allocate env a s))))"
    by (rule Cons.IH)
  finally show ?case by (simp add: split_beta)
qed

lemma later_number_is_greater:
  fixes env :: "('n::zero, 'g) env" and a b :: "'n alloc"
  assumes "fst (allocate env a s) = Some x"
    and "fst (allocate env b (snd (for_each (allocate env) as (snd (allocate env a s))))) = Some y"
    and "category_of a = category_of b"
  shows "\<exists>m n. x = name_text a m \<and> y = name_text b n \<and> m < n"
proof -
  let ?s1 = "snd (allocate env a s)"
  let ?s2 = "snd (for_each (allocate env) as ?s1)"
  let ?c = "category_of a"
  have x: "x = name_text a (counter ?c s + 1)"
    by (rule allocate_name [OF assms(1)])
  have y: "y = name_text b (counter ?c ?s2 + 1)"
    using allocate_name [OF assms(2)] assms(3) by simp
  have "counter ?c s + 1 = counter ?c ?s1"
    by (simp add: allocate_counter)
  also have "\<dots> \<le> counter ?c ?s2"
    by (rule for_each_allocate_counter)
  finally have "counter ?c s + 1 < counter ?c ?s2 + 1" by simp
  with x y show ?thesis by blast
qed

lemma new_physical_group_labelled:
  "new_physical_group (Some l) s
     = ([dquote] @ l @ [dquote], s\<lparr>PHYSICALGROUP_ID := PHYSICALGROUP_ID s + 1\<rparr>)"
  by (simp add: new_physical_group_def)

lemma oc_name_text_inj:
  "oc_name_text a m = oc_name_text b n \<Longrightarrow> oc_category_of a = oc_category_of b \<and> m = n"
  by (cases a; cases b) (auto simp: is_num_char_def is_digit_def)

lemma boolean_name_is_no_builtin_name: "''bo'' @ fmt_d n \<noteq> name_text a m"
  by (cases a) (auto simp: is_num_char_def is_digit_def)

lemma oc_allocate_name:
  "fst (oc_allocate base_id repr a s) = Some x \<Longrightarrow>
   x = oc_name_text a (oc_counter (oc_category_of a) s + 1)"
  by (cases a)
     (auto simp: oc_counter_def boolean_operation_def oc_extrude_def Let_def
        split: prod.splits sum.splits list.splits option.splits if_splits oc_source.splits)

lemma oc_allocate_counter:
  "oc_counter c (snd (oc_allocate base_id repr a s))
     = (if c = oc_category_of a then oc_counter c s + 1 else oc_counter c s)"
  by (cases a; cases c)
     (auto simp: oc_counter_def boolean_operation_def oc_extrude_def Let_def
        split: prod.splits sum.splits list.splits option.splits if_splits oc_source.splits)

lemma for_each_oc_allocate_counter:
  "oc_counter c s \<le> oc_counter c (snd (for_each (oc_allocate base_id repr) as s))"
proof (induction as arbitrary: s)
  case Nil
  then show ?case by simp
next
  case (Cons a as)
  have "oc_counter c s \<le> oc_counter c (snd (oc_allocate base_id repr a s))"
    by (simp add: oc_allocate_counter)
  also have "\<dots> \<le> oc_counter c (snd (for_each (oc_allocate base_id repr) as
                       (snd (oc_allocate base_id repr a s))))"
    by (rule Cons.IH)
  finally show ?case by (simp add: split_beta)
qed

lemma oc_later_number_is_greater:
  fixes repr :: "'n \<Rightarrow> string" and a b :: "'n oc_alloc"
  assumes "fst (oc_allocate base_id repr a s) = Some x"
    and "fst (oc_allocate base_id repr b
           (snd (for_each (oc_allocate base_id repr) as (snd (oc_allocate base_id repr a s))))) = Some y"
    and "oc_category_of a = oc_category_of b"
  shows "\<exists>m n. x = oc_name_text a m \<and> y = oc_name_text b n \<and> m < n"
proof -
  let ?s1 = "snd (oc_allocate base_id repr a s)"
  let ?s2 = "snd (for_each (oc_allocate base_id repr) as ?s1)"
  let ?c = "oc_category_of a"
  have x: "x = oc_name_text a (oc_counter ?c s + 1)"
    by (rule oc_allocate_name [OF assms(1)])
  have y: "y = oc_name_text b (oc_counter ?c ?s2 + 1)"
    using oc_allocate_name [OF assms(2)] assms(3) by simp
  have "oc_counter ?c s + 1 = oc_counter ?c ?s1"
    by (simp add: oc_allocate_counter)
  also have "\<dots> \<le> oc_counter ?c ?s2"
    by (rule for_each_oc_allocate_counter)
  finally have "oc_counter ?c s + 1 < oc_counter ?c ?s2 + 1" by simp
  with x y show ?thesis by blast
qed

lemma oc_allocated_above:
  fixes repr :: "'n \<Rightarrow> string"
  shows "x \<in> set (somes (fst (for_each (oc_allocate base_id repr) as s))) \<Longrightarrow>
   \<exists>(a::'n oc_alloc) n. x = oc_name_text a n \<and> oc_counter (oc_category_of a) s < n"
proof (induction as arbitrary: s)
  case Nil
  then show ?case by simp
next
  case (Cons a as)
  let ?s' = "snd (oc_allocate base_id repr a s)"
  have le: "oc_counter c s \<le> oc_counter c ?s'" for c
    by (simp add: oc_allocate_counter)
  from Cons.prems consider
      (head) "fst (oc_allocate base_id repr a s) = Some x"
    | (tail) "x \<in> set (somes (fst (for_each (oc_allocate base_id repr) as ?s')))"
    by (cases "fst (oc_allocate base_id repr a s)") (auto simp: split_beta)
  then show ?case
  proof cases
    case head
    from oc_allocate_name [OF head] show ?thesis by force
  next
    case tail
    from Cons.IH [OF tail] obtain b :: "'n oc_alloc" and n
      where "x = oc_name_text b n" "oc_counter (oc_category_of b) ?s' < n"
      by blast
    with le [of "oc_category_of b"] show ?thesis by force
  qed
qed

lemma oc_allocated_distinct:
  fixes repr :: "'n \<Rightarrow> string"
  shows "distinct (somes (fst (for_each (oc_allocate base_id repr) as s)))"
proof (induction as arbitrary: s)
  case Nil
  then show ?case by simp
next
  case (Cons a as)
  let ?s' = "snd (oc_allocate base_id repr a s)"
  let ?rest = "somes (fst (for_each (oc_allocate base_id repr) as ?s'))"
  show ?case
  proof (cases "fst (oc_allocate base_id repr a s)")
    case None
    with Cons.IH [of ?s'] show ?thesis by (simp add: split_beta)
  next
    case (Some x)
    have "x \<notin> set ?rest"
    proof
      assume "x \<in> set ?rest"
      from oc_allocated_above [OF this] obtain b :: "'n oc_alloc" and n where
        b: "x = oc_name_text b n" "oc_counter (oc_category_of b) ?s' < n" by blast
      from oc_allocate_name [OF Some] b(1)
      have "oc_name_text a (oc_counter (oc_category_of a) s + 1) = oc_name_text b n" by simp
      from oc_name_text_inj [OF this] b(2) show False
        by (auto simp: oc_allocate_counter)
    qed
    with Some Cons.IH [of ?s'] show ?thesis by (simp add: split_beta)
  qed
qed

text \<open>
  Claim C7, for the categories surface, surface loop, volume, extrusion, field and array
  of the built-in session and its physical groups allocated without a label, and for the
  categories boolean operation and extrusion of the OpenCASCADE session. Every counter of
  a fresh session is zero. An allocation increments the counter of its category, leaves
  the other counters alone, and returns the name formatted from the new value. Of two
  allocations of one category, with any allocations between them, the later has the
  greater sequence number. Two names of one session are equal only if category and
  sequence number are. Hence the names returned by any sequence of allocations, from any
  session, are pairwise distinct; this is said for either kind of session, and once more
  for the boolean operations alone, whose names, \<^verbatim>\<open>bo\<close> and the number, are also no name
  of the built-in session. A physical group allocated with a label is the exception: its
  name is the label in double quotes, whatever the counter is, and the counter advances.
\<close>

theorem allocated_names_are_unique:
  fixes env :: "('n::zero, 'g) env" and a b :: "'n alloc"
    and repr :: "'r \<Rightarrow> string" and oa ob :: "'r oc_alloc"
  shows
  "counter c (init version g) = 0
   \<and> BOOLEAN_ID (oc_init version gmsh_major str lmin lmax) = 0
   \<and> EXTRUDE_ID_oc (oc_init version gmsh_major str lmin lmax) = 0
   \<and> (fst (allocate env a s) = Some x \<longrightarrow> x = name_text a (counter (category_of a) s + 1))
   \<and> counter c (snd (allocate env a s)) = (if c = category_of a then counter c s + 1 else counter c s)
   \<and> (fst (allocate env a s) = Some x
        \<and> fst (allocate env b (snd (for_each (allocate env) as (snd (allocate env a s))))) = Some y
        \<and> category_of a = category_of b \<longrightarrow>
      (\<exists>m n. x = name_text a m \<and> y = name_text b n \<and> m < n))
   \<and> (name_text a m = name_text b n \<longrightarrow> category_of a = category_of b \<and> m = n)
   \<and> distinct (somes (fst (for_each (allocate env) as s)))
   \<and> (fst (boolean_call base_id bc o_s) = Some z \<longrightarrow> z = ''bo'' @ fmt_d (BOOLEAN_ID o_s + 1))
   \<and> BOOLEAN_ID (snd (boolean_call base_id bc o_s)) = BOOLEAN_ID o_s + 1
   \<and> distinct (somes (fst (for_each (boolean_call base_id) bcs o_s)))
   \<and> new_physical_group (Some l) s
       = ([dquote] @ l @ [dquote], s\<lparr>PHYSICALGROUP_ID := PHYSICALGROUP_ID s + 1\<rparr>)
   \<and> oc_counter oc (oc_init version gmsh_major str lmin lmax) = 0
   \<and> (fst (oc_allocate base_id repr oa o_s) = Some w \<longrightarrow>
        w = oc_name_text oa (oc_counter (oc_category_of oa) o_s + 1))
   \<and> oc_counter oc (snd (oc_allocate base_id repr oa o_s))
       = (if oc = oc_category_of oa then oc_counter oc o_s + 1 else oc_counter oc o_s)
   \<and> (fst (oc_allocate base_id repr oa o_s) = Some w
        \<and> fst (oc_allocate base_id repr ob
             (snd (for_each (oc_allocate base_id repr) oas (snd (oc_allocate base_id repr oa o_s)))))
            = Some v
        \<and> oc_category_of oa = oc_category_of ob \<longrightarrow>
      (\<exists>m n. w = oc_name_text oa m \<and> v = oc_name_text ob n \<and> m < n))
   \<and> (oc_name_text oa i = oc_name_text ob j \<longrightarrow> oc_category_of oa = oc_category_of ob \<and> i = j)
   \<and> distinct (somes (fst (for_each (oc_allocate base_id repr) oas o_s)))
   \<and> ''bo'' @ fmt_d k \<noteq> name_text a q"
proof (intro conjI impI)
  show "counter c (init version g) = 0"
    by (simp add: counter_def init_def split: category.split)
  show "BOOLEAN_ID (oc_init version gmsh_major str lmin lmax) = 0"
    and "EXTRUDE_ID_oc (oc_init version gmsh_major str lmin lmax) = 0"
    by (simp_all add: oc_init_def Let_def)
  show "x = name_text a (counter (category_of a) s + 1)" if "fst (allocate env a s) = Some x"
    by (rule allocate_name [OF that])
  show "counter c (snd (allocate env a s)) = (if c = category_of a then counter c s + 1 else counter c s)"
    by (rule allocate_counter)
  show "\<exists>m n. x = name_text a m \<and> y = name_text b n \<and> m < n"
    if "fst (allocate env a s) = Some x
        \<and> fst (allocate env b (snd (for_each (allocate env) as (snd (allocate env a s))))) = Some y
        \<and> category_of a = category_of b"
    using that later_number_is_greater [of env a s x b as y] by blast
  show "category_of a = category_of b" and "m = n" if "name_text a m = name_text b n"
    using name_text_inj [OF that] by simp_all
  show "distinct (somes (fst (for_each (allocate env) as s)))"
    by (rule allocated_distinct)
  show "z = ''bo'' @ fmt_d (BOOLEAN_ID o_s + 1)" if "fst (boolean_call base_id bc o_s) = Some z"
    by (rule boolean_call_name [OF that])
  show "BOOLEAN_ID (snd (boolean_call base_id bc o_s)) = BOOLEAN_ID o_s + 1"
    by (rule boolean_call_counter)
  show "distinct (somes (fst (for_each (boolean_call base_id) bcs o_s)))"
    by (rule boolean_distinct)
  show "new_physical_group (Some l) s
       = ([dquote] @ l @ [dquote], s\<lparr>PHYSICALGROUP_ID := PHYSICALGROUP_ID s + 1\<rparr>)"
    by (rule new_physical_group_labelled)
  show "oc_counter oc (oc_init version gmsh_major str lmin lmax) = 0"
    by (simp add: oc_counter_def oc_init_def Let_def split: oc_category.split)
  show "w = oc_name_text oa (oc_counter (oc_category_of oa) o_s + 1)"
    if "fst (oc_allocate base_id repr oa o_s) = Some w"
    by (rule oc_allocate_name [OF that])
  show "oc_counter oc (snd (oc_allocate base_id repr oa o_s))
       = (if oc = oc_category_of oa then oc_counter oc o_s + 1 else oc_counter oc o_s)"
    by (rule oc_allocate_counter)
  show "\<exists>m n. w = oc_name_text oa m \<and> v = oc_name_text ob n \<and> m < n"
    if "fst (oc_allocate base_id repr oa o_s) = Some w
        \<and> fst (oc_allocate base_id repr ob
             (snd (for_each (oc_allocate base_id repr) oas (snd (oc_allocate base_id repr oa o_s)))))
            = Some v
        \<and> oc_category_of oa = oc_category_of ob"
    using that oc_later_number_is_greater [of base_id repr oa o_s w ob oas v] by blast
  show "oc_category_of oa = oc_category_of ob" and "i = j"
    if "oc_name_text oa i = oc_name_text ob j"
    using oc_name_text_inj [OF that] by simp_all
  show "distinct (somes (fst (for_each (oc_allocate base_id repr) oas o_s)))"
    by (rule oc_allocated_distinct)
  show "''bo'' @ fmt_d k \<noteq> name_text a q"
    by (rule boolean_name_is_no_builtin_name)
qed

text \<open>
  As claim C7 is worded, successive allocations of a physical group yield distinct
  names. With a label the name is the label in double quotes: two allocations with the
  label \<^verbatim>\<open>wall\<close> yield the same name, and the counter has advanced to 2.
\<close>

theorem labelled_physical_groups_counterexample:
  "fst (new_physical_group (Some ''wall'') session0)
     = fst (new_physical_group (Some ''wall'') (snd (new_physical_group (Some ''wall'') session0)))
   \<and> PHYSICALGROUP_ID (snd (new_physical_group (Some ''wall'')
        (snd (new_physical_group (Some ''wall'') session0)))) = 2"
  by (simp add: new_physical_group_def session0_def init_def)

text \<open>
  The statement of claim C7 on fresh sessions. Built-in: \<^verbatim>\<open>vol1\<close>, then an array, then
  \<^verbatim>\<open>vol2\<close>. OpenCASCADE: the boolean operation \<^verbatim>\<open>bo1\<close>; and the extrusion of a surface,
  \<^verbatim>\<open>ex1[0]\<close>, then a boolean operation, then the extrusion of a line, \<^verbatim>\<open>ex2[0]\<close>.
\<close>

theorem allocated_names_are_unique_witness:
  "fst (allocate sample_env (New_volume ''surfloop1'') session0) = Some ''vol1''
   \<and> ''vol1'' = name_text (New_volume ''surfloop1'' :: real alloc)
        (counter (category_of (New_volume ''surfloop1'' :: real alloc)) session0 + 1)
   \<and> fst (allocate sample_env (New_volume ''surfloop2'')
        (snd (for_each (allocate sample_env) [New_array []]
           (snd (allocate sample_env (New_volume ''surfloop1'') session0))))) = Some ''vol2''
   \<and> (\<exists>m n. ''vol1'' = name_text (New_volume ''surfloop1'' :: real alloc) m
        \<and> ''vol2'' = name_text (New_volume ''surfloop2'' :: real alloc) n \<and> m < n)
   \<and> fst (boolean_call list_id (''BooleanUnion'', [surface1], [surface1], True) oc_session0) = Some ''bo1''
   \<and> ''bo1'' = ''bo'' @ fmt_d (BOOLEAN_ID oc_session0 + 1)
   \<and> fst (oc_allocate list_id fmt_d (New_oc_extrusion (OObj surface_object1) [0, 0, 1]) oc_session0)
       = Some ''ex1[0]''
   \<and> ''ex1[0]'' = oc_name_text (New_oc_extrusion (OObj surface_object1) [0, 0, 1 :: int])
        (oc_counter (oc_category_of (New_oc_extrusion (OObj surface_object1) [0, 0, 1 :: int]))
           oc_session0 + 1)
   \<and> fst (oc_allocate list_id fmt_d (New_oc_extrusion (OObj line_object1) [1, 0, 0])
        (snd (for_each (oc_allocate list_id fmt_d)
           [New_boolean ''BooleanUnion'' [surface1] [surface1] True]
           (snd (oc_allocate list_id fmt_d (New_oc_extrusion (OObj surface_object1) [0, 0, 1])
              oc_session0))))) = Some ''ex2[0]''
   \<and> (\<exists>m n. ''ex1[0]'' = oc_name_text (New_oc_extrusion (OObj surface_object1) [0, 0, 1 :: int]) m
        \<and> ''ex2[0]'' = oc_name_text (New_oc_extrusion (OObj line_object1) [1, 0, 0 :: int]) n
        \<and> m < n)"
proof -
  have e: "fmt_d 0 = ''0''" "fmt_d 1 = ''1''" "fmt_d 2 = ''2''"
    by (simp_all add: fmt_d_def str_nat.simps digit_def)
  have h1: "fst (allocate sample_env (New_volume ''surfloop1'') session0) = Some ''vol1''"
    by (simp add: add_volume_def Let_def append_def session0_def init_def e)
  have h2: "fst (allocate sample_env (New_volume ''surfloop2'')
        (snd (for_each (allocate sample_env) [New_array []]
           (snd (allocate sample_env (New_volume ''surfloop1'') session0))))) = Some ''vol2''"
    by (simp add: add_volume_def add_array_def Let_def append_def session0_def init_def e)
  have h3: "category_of (New_volume ''surfloop1'' :: real alloc) = category_of (New_volume ''surfloop2'' :: real alloc)"
    by simp
  have h4: "name_text (New_volume ''surfloop1'' :: real alloc) 1 = name_text (New_volume ''surfloop2'' :: real alloc) 1"
    by simp
  have h5: "fst (boolean_call list_id (''BooleanUnion'', [surface1], [surface1], True) oc_session0) = Some ''bo1''"
    by (simp add: boolean_call_def boolean_operation_def Let_def surface1_def oc_session0_def
        oc_init_def e)
  have h6: "fst (oc_allocate list_id fmt_d (New_oc_extrusion (OObj surface_object1) [0, 0, 1]) oc_session0)
       = Some ''ex1[0]''"
    by (simp add: oc_extrude_def Let_def surface_object1_def oc_session0_def oc_init_def e)
  have h7: "fst (oc_allocate list_id fmt_d (New_oc_extrusion (OObj line_object1) [1, 0, 0])
        (snd (for_each (oc_allocate list_id fmt_d)
           [New_boolean ''BooleanUnion'' [surface1] [surface1] True]
           (snd (oc_allocate list_id fmt_d (New_oc_extrusion (OObj surface_object1) [0, 0, 1])
              oc_session0))))) = Some ''ex2[0]''"
    by (simp add: oc_extrude_def boolean_operation_def Let_def surface_object1_def
        line_object1_def surface1_def oc_session0_def oc_init_def e)
  have h8: "oc_category_of (New_oc_extrusion (OObj surface_object1) [0, 0, 1 :: int])
      = oc_category_of (New_oc_extrusion (OObj line_object1) [1, 0, 0 :: int])"
    by simp
  have h9: "oc_name_text (New_oc_extrusion (OObj surface_object1) [0, 0, 1 :: int]) 1
      = oc_name_text (New_oc_extrusion (OObj line_object1) [1, 0, 0 :: int]) 1"
    by simp
  note t = allocated_names_are_unique [where env = sample_env and a = "New_volume ''surfloop1''"
      and s = session0 and x = "''vol1''" and b = "New_volume ''surfloop2''" and as = "[New_array []]"
      and y = "''vol2''" and m = 1 and n = 1 and base_id = list_id
      and bc = "(''BooleanUnion'', [surface1], [surface1], True)" and o_s = oc_session0
      and z = "''bo1''" and c = Volume and version = "''3.0''" and g = "0::nat" and gmsh_major = 3
      and str = fmt_d and lmin = None and lmax = None and bcs = "[]"
      and l = "''wall''" and oc = Extrusion_oc and repr = fmt_d
      and oa = "New_oc_extrusion (OObj surface_object1) [0, 0, 1]" and w = "''ex1[0]''"
      and ob = "New_oc_extrusion (OObj line_object1) [1, 0, 0]"
      and oas = "[New_boolean ''BooleanUnion'' [surface1] [surface1] True]" and v = "''ex2[0]''"
      and i = 1 and j = 1 and k = 1 and q = 1]
  from t h1 have r1: "''vol1'' = name_text (New_volume ''surfloop1'' :: real alloc)
        (counter (category_of (New_volume ''surfloop1'' :: real alloc)) session0 + 1)"
    by blast
  from t h1 h2 h3 have r2: "\<exists>m n. ''vol1'' = name_text (New_volume ''surfloop1'' :: real alloc) m
        \<and> ''vol2'' = name_text (New_volume ''surfloop2'' :: real alloc) n \<and> m < n"
    by blast
  from t h5 have r3: "''bo1'' = ''bo'' @ fmt_d (BOOLEAN_ID oc_session0 + 1)"
    by blast
  from t h6 have r4: "''ex1[0]'' = oc_name_text (New_oc_extrusion (OObj surface_object1) [0, 0, 1 :: int])
        (oc_counter (oc_category_of (New_oc_extrusion (OObj surface_object1) [0, 0, 1 :: int]))
           oc_session0 + 1)"
    by blast
  from t h6 h7 h8 have r5: "\<exists>m n. ''ex1[0]'' = oc_name_text (New_oc_extrusion (OObj surface_object1) [0, 0, 1 :: int]) m
        \<and> ''ex2[0]'' = oc_name_text (New_oc_extrusion (OObj line_object1) [1, 0, 0 :: int]) n
        \<and> m < n"
    by blast
  from h1 h2 h5 h6 h7 r1 r2 r3 r4 r5 show ?thesis by blast
qed

section \<open>The box\<close>


lemma add_new_counters:
  "SURFACE_ID (snd (add_new c s)) = SURFACE_ID s"
  "SURFACELOOP_ID (snd (add_new c s)) = SURFACELOOP_ID s"
  "VOLUME_ID (snd (add_new c s)) = VOLUME_ID s"
  "EXTRUDE_ID (snd (add_new c s)) = EXTRUDE_ID s"
  "ARRAY_ID (snd (add_new c s)) = ARRAY_ID s"
  "FIELD_ID (snd (add_new c s)) = FIELD_ID s"
  "PHYSICALGROUP_ID (snd (add_new c s)) = PHYSICALGROUP_ID s"
  by (simp_all add: add_new_def add_def append_def split_beta)



lemma add_all_counters:
  "SURFACE_ID (snd (add_all cs s)) = SURFACE_ID s"
  "SURFACELOOP_ID (snd (add_all cs s)) = SURFACELOOP_ID s"
  "VOLUME_ID (snd (add_all cs s)) = VOLUME_ID s"
  "EXTRUDE_ID (snd (add_all cs s)) = EXTRUDE_ID s"
  "ARRAY_ID (snd (add_all cs s)) = ARRAY_ID s"
  "FIELD_ID (snd (add_all cs s)) = FIELD_ID s"
  "PHYSICALGROUP_ID (snd (add_all cs s)) = PHYSICALGROUP_ID s"
  by (induction cs arbitrary: s) (simp_all add: split_beta add_new_counters)


lemma for_each_ruled_length: "length (fst (for_each add_ruled_surface ls s)) = length ls"
  by (induction ls arbitrary: s) (simp_all add: split_beta)


lemma for_each_ruled_counters:
  "SURFACE_ID (snd (for_each add_ruled_surface ls s)) = SURFACE_ID s + int (length ls)"
  "SURFACELOOP_ID (snd (for_each add_ruled_surface ls s)) = SURFACELOOP_ID s"
  "VOLUME_ID (snd (for_each add_ruled_surface ls s)) = VOLUME_ID s"
  "ARRAY_ID (snd (for_each add_ruled_surface ls s)) = ARRAY_ID s"
  "PHYSICALGROUP_ID (snd (for_each add_ruled_surface ls s)) = PHYSICALGROUP_ID s"
  by (induction ls arbitrary: s)
     (simp_all add: split_beta add_ruled_surface_def Let_def append_def)






section \<open>The torus\<close>

lemma extrusion_or_comment_no_volume: "extrusion_or_comment z \<Longrightarrow> \<not> is_volume_statement z"
  by (cases z) (auto simp: extrusion_or_comment_def is_volume_statement_def)

lemma no_volume_statements:
  "list_all extrusion_or_comment zs \<Longrightarrow> filter is_volume_statement zs = []"
  by (induction zs) (auto dest: extrusion_or_comment_no_volume)

lemma extrude_rotation:
  "extrude env entity None (Some r) (Some p) a s =
     (Inr (Dummy (''ex'' @ fmt_d (EXTRUDE_ID s + 1) @ ''[0]''),
           Dummy (''ex'' @ fmt_d (EXTRUDE_ID s + 1) @ ''[1]'')),
      s\<lparr>EXTRUDE_ID := EXTRUDE_ID s + 1,
        GMSH_CODE := GMSH_CODE s @
          [''ex'' @ fmt_d (EXTRUDE_ID s + 1) @ ''[] = Extrude{{'' @ triple env r @ ''}, {''
           @ triple env p @ ''}, '' @ str_val env a @ ''}{''
           @ id' (case entity of Str x \<Rightarrow> Dummy x | Ent e \<Rightarrow> e) @ '';};'']\<rparr>)"
  by (simp add: extrude_def Let_def append_def)

lemma extrude_each_effect:
  "\<exists>tops surfs n zs.
     extrude_each env r p a ls s
       = (Inr (tops, surfs), s\<lparr>EXTRUDE_ID := n, GMSH_CODE := GMSH_CODE s @ zs\<rparr>)
     \<and> list_all extrusion_or_comment zs"
proof (induction ls arbitrary: s)
  case Nil
  have "extrude_each env r p a [] s
      = (Inr ([], []), s\<lparr>EXTRUDE_ID := EXTRUDE_ID s, GMSH_CODE := GMSH_CODE s @ []\<rparr>)
    \<and> list_all extrusion_or_comment []"
    by simp
  then show ?case by blast
next
  case (Cons l ls)
  let ?st = "''ex'' @ fmt_d (EXTRUDE_ID s + 1) @ ''[] = Extrude{{'' @ triple env r @ ''}, {''
           @ triple env p @ ''}, '' @ str_val env a @ ''}{''
           @ id' (Dummy (''Line{'' @ id' l @ ''}'')) @ '';};''"
  let ?s1 = "s\<lparr>EXTRUDE_ID := EXTRUDE_ID s + 1, GMSH_CODE := GMSH_CODE s @ [?st]\<rparr>"
  from Cons.IH [of ?s1] obtain tops surfs n zs where
    ih: "extrude_each env r p a ls ?s1
       = (Inr (tops, surfs), ?s1\<lparr>EXTRUDE_ID := n, GMSH_CODE := GMSH_CODE ?s1 @ zs\<rparr>)"
      "list_all extrusion_or_comment zs"
    by blast
  have "extrude_each env r p a (l # ls) s
      = (Inr (Dummy (''ex'' @ fmt_d (EXTRUDE_ID s + 1) @ ''[0]'') # tops,
              Dummy (''ex'' @ fmt_d (EXTRUDE_ID s + 1) @ ''[1]'') # surfs),
         s\<lparr>EXTRUDE_ID := n, GMSH_CODE := GMSH_CODE s @ (?st # zs)\<rparr>)"
    using ih(1) by (simp add: extrude_rotation)
  moreover have "list_all extrusion_or_comment (?st # zs)"
    using ih(2) by (simp add: extrusion_or_comment_def)
  ultimately show ?case by blast
qed

lemma extrude_rounds_effect:
  "\<exists>previous' surfs n zs.
     extrude_rounds env title r p a rng previous s
       = (Inr (previous', surfs), s\<lparr>EXTRUDE_ID := n, GMSH_CODE := GMSH_CODE s @ zs\<rparr>)
     \<and> list_all extrusion_or_comment zs"
proof (induction rng arbitrary: s previous)
  case Nil
  have "extrude_rounds env title r p a [] previous s
      = (Inr (previous, []), s\<lparr>EXTRUDE_ID := EXTRUDE_ID s, GMSH_CODE := GMSH_CODE s @ []\<rparr>)
    \<and> list_all extrusion_or_comment []"
    by simp
  then show ?case by blast
next
  case (Cons i rng)
  let ?c = "''// '' @ title @ fmt_d (i + 1)"
  let ?s1 = "s\<lparr>GMSH_CODE := GMSH_CODE s @ [?c]\<rparr>"
  from extrude_each_effect [of env r p a previous ?s1] obtain tops surfs n zs where
    e: "extrude_each env r p a previous ?s1
       = (Inr (tops, surfs), ?s1\<lparr>EXTRUDE_ID := n, GMSH_CODE := GMSH_CODE ?s1 @ zs\<rparr>)"
      "list_all extrusion_or_comment zs"
    by blast
  let ?s2 = "?s1\<lparr>EXTRUDE_ID := n, GMSH_CODE := GMSH_CODE ?s1 @ zs\<rparr>"
  from Cons.IH [of tops ?s2] obtain previous' later n' zs' where
    ih: "extrude_rounds env title r p a rng tops ?s2
       = (Inr (previous', later), ?s2\<lparr>EXTRUDE_ID := n', GMSH_CODE := GMSH_CODE ?s2 @ zs'\<rparr>)"
      "list_all extrusion_or_comment zs'"
    by blast
  have "extrude_rounds env title r p a (i # rng) previous s
      = (Inr (previous', surfs @ later),
         s\<lparr>EXTRUDE_ID := n', GMSH_CODE := GMSH_CODE s @ (?c # zs @ zs')\<rparr>)"
    using e(1) ih(1) by (simp add: add_comment_def append_def)
  moreover have "list_all extrusion_or_comment (?c # zs @ zs')"
    using e(2) ih(2) by (simp add: extrusion_or_comment_def)
  ultimately show ?case by blast
qed

lemma extrude_steps_effect:
  "\<exists>vols n zs.
     extrude_steps env r p k m previous s
       = (Inr vols, s\<lparr>EXTRUDE_ID := n, GMSH_CODE := GMSH_CODE s @ zs\<rparr>)
     \<and> list_all extrusion_or_comment zs"
proof (induction m arbitrary: s previous)
  case 0
  have "extrude_steps env r p k 0 previous s
      = (Inr [], s\<lparr>EXTRUDE_ID := EXTRUDE_ID s, GMSH_CODE := GMSH_CODE s @ []\<rparr>)
    \<and> list_all extrusion_or_comment []"
    by simp
  then show ?case by blast
next
  case (Suc m)
  let ?st = "''ex'' @ fmt_d (EXTRUDE_ID s + 1) @ ''[] = Extrude{{'' @ triple env r @ ''}, {''
           @ triple env p @ ''}, '' @ str_val env (Text (''2*Pi/'' @ fmt_d k)) @ ''}{''
           @ id' (Dummy (''Surface{'' @ id' previous @ ''}'')) @ '';};''"
  let ?s1 = "s\<lparr>EXTRUDE_ID := EXTRUDE_ID s + 1, GMSH_CODE := GMSH_CODE s @ [?st]\<rparr>"
  from Suc.IH [of "Dummy (''ex'' @ fmt_d (EXTRUDE_ID s + 1) @ ''[0]'')" ?s1] obtain vols n zs where
    ih: "extrude_steps env r p k m (Dummy (''ex'' @ fmt_d (EXTRUDE_ID s + 1) @ ''[0]'')) ?s1
       = (Inr vols, ?s1\<lparr>EXTRUDE_ID := n, GMSH_CODE := GMSH_CODE ?s1 @ zs\<rparr>)"
      "list_all extrusion_or_comment zs"
    by blast
  have "extrude_steps env r p k (Suc m) previous s
      = (Inr (Dummy (''ex'' @ fmt_d (EXTRUDE_ID s + 1) @ ''[1]'') # vols),
         s\<lparr>EXTRUDE_ID := n, GMSH_CODE := GMSH_CODE s @ (?st # zs)\<rparr>)"
    using ih(1) by (simp add: extrude_rotation)
  moreover have "list_all extrusion_or_comment (?st # zs)"
    using ih(2) by (simp add: extrusion_or_comment_def)
  ultimately show ?case by blast
qed


lemma add_torus_extrude_lines_effect:
  "\<exists>body tail.
     add_torus_extrude_lines env irad orad lcar R x0 label s
       = (Inr None,
          s\<lparr>SURFACELOOP_ID := SURFACELOOP_ID s + 1,
            VOLUME_ID := VOLUME_ID s + 1,
            EXTRUDE_ID := EXTRUDE_ID (snd (add_torus_extrude_lines env irad orad lcar R x0 label s)),
            PHYSICALGROUP_ID := PHYSICALGROUP_ID (snd (add_torus_extrude_lines env irad orad lcar R x0 label s)),
            GMSH_CODE := GMSH_CODE s
              @ [''// '' @ dashes, ''// Torus'',
                 code (fst (Circle env (vec_add x0 (dot_mv R (0, orad, 0))) irad lcar (dot_mm R Rc)
                              None None (world s)))]
              @ body
              @ [''Volume(vol'' @ fmt_d (VOLUME_ID s + 1) @ '') = surfloop''
                   @ fmt_d (SURFACELOOP_ID s + 1) @ '';'']
              @ tail,
            world := snd (Circle env (vec_add x0 (dot_mv R (0, orad, 0))) irad lcar (dot_mm R Rc)
                              None None (world s))\<rparr>)
     \<and> filter is_volume_statement body = []
     \<and> filter is_volume_statement tail = []
     \<and> length tail \<le> 2"
proof -
  let ?a3 = "add_new (Circle env (vec_add x0 (dot_mv R (0, orad, 0))) irad lcar (dot_mm R Rc) None None)
                (snd (add_comment ''Torus'' (snd (add_comment dashes s))))"
  let ?s3 = "snd ?a3"
  from extrude_rounds_effect [of env "''Round no. ''" "dot_mv R (0, 0, 1)"
      "vec_add (dot_mv R (0, 0, 0)) x0" "Text ''2*Pi/3''" "[0, 1, 2]" "lines (line_loop (fst ?a3))" ?s3]
  obtain previous' surfs n zs where
    e: "extrude_rounds env ''Round no. '' (dot_mv R (0, 0, 1)) (vec_add (dot_mv R (0, 0, 0)) x0)
          (Text ''2*Pi/3'') [0, 1, 2] (lines (line_loop (fst ?a3))) ?s3
       = (Inr (previous', surfs), ?s3\<lparr>EXTRUDE_ID := n, GMSH_CODE := GMSH_CODE ?s3 @ zs\<rparr>)"
    and z: "list_all extrusion_or_comment zs"
    by blast
  let ?sl = "''surfloop'' @ fmt_d (SURFACELOOP_ID s + 1)"
  let ?vol = "''vol'' @ fmt_d (VOLUME_ID s + 1)"
  let ?body = "zs @ [?sl @ '' = newsl;'',
                     ''Surface Loop('' @ ?sl @ '') = {'' @ join '','' (map id' surfs) @ ''};'',
                     ?vol @ '' = newv;'']"
  let ?tail = "(if nonempty label
                then [''Physical Volume('' @ [dquote] @ the label @ [dquote] @ '') = '' @ ?vol @ '';'']
                else [])
               @ [''// '' @ dashes @ [newline]]"
  have r: "add_torus_extrude_lines env irad orad lcar R x0 label s
      = (let s4 = ?s3\<lparr>EXTRUDE_ID := n, GMSH_CODE := GMSH_CODE ?s3 @ zs\<rparr>;
             (surface_loop, s5) = add_surface_loop surfs s4;
             (vol, s6) = add_volume surface_loop s5;
             s7 = (if nonempty label
                   then snd (add_physical_volume env (Name vol) label s6) else s6);
             (u3, s8) = add_comment (dashes @ [newline]) s7
         in (Inr None, s8))"
    by (simp add: add_torus_extrude_lines_def Let_def split_beta e del: extrude_rounds.simps)
  have "add_torus_extrude_lines env irad orad lcar R x0 label s
       = (Inr None,
          s\<lparr>SURFACELOOP_ID := SURFACELOOP_ID s + 1,
            VOLUME_ID := VOLUME_ID s + 1,
            EXTRUDE_ID := EXTRUDE_ID (snd (add_torus_extrude_lines env irad orad lcar R x0 label s)),
            PHYSICALGROUP_ID := PHYSICALGROUP_ID (snd (add_torus_extrude_lines env irad orad lcar R x0 label s)),
            GMSH_CODE := GMSH_CODE s
              @ [''// '' @ dashes, ''// Torus'',
                 code (fst (Circle env (vec_add x0 (dot_mv R (0, orad, 0))) irad lcar (dot_mm R Rc)
                              None None (world s)))]
              @ ?body
              @ [''Volume(vol'' @ fmt_d (VOLUME_ID s + 1) @ '') = surfloop''
                   @ fmt_d (SURFACELOOP_ID s + 1) @ '';'']
              @ ?tail,
            world := snd (Circle env (vec_add x0 (dot_mv R (0, orad, 0))) irad lcar (dot_mm R Rc)
                              None None (world s))\<rparr>)"
    unfolding r
    by (cases label)
       (simp_all add: Let_def split_beta add_surface_loop_def add_volume_def add_physical_volume_def
          new_physical_group_def add_comment_def add_new_def add_def append_def str_handle_def
          nonempty_def)
  moreover have "filter is_volume_statement ?body = []"
    using no_volume_statements [OF z] by (simp add: is_volume_statement_def)
  moreover have "filter is_volume_statement ?tail = []"
    by (simp add: is_volume_statement_def dquote_def)
  moreover have "length ?tail \<le> 2" by simp
  ultimately show ?thesis by blast
qed


lemma add_torus_extrude_circle_effect:
  "\<exists>body ids tail.
     add_torus_extrude_circle env irad orad lcar R x0 label s
       = (Inr None,
          s\<lparr>VOLUME_ID := VOLUME_ID s + 1,
            EXTRUDE_ID := EXTRUDE_ID (snd (add_torus_extrude_circle env irad orad lcar R x0 label s)),
            PHYSICALGROUP_ID := PHYSICALGROUP_ID (snd (add_torus_extrude_circle env irad orad lcar R x0 label s)),
            GMSH_CODE := GMSH_CODE s
              @ [''// '' @ dashes, ''// Torus'',
                 code (fst (Circle env (vec_add x0 (dot_mv R (0, orad, 0))) irad lcar (dot_mm R Rc)
                              None None (world s)))]
              @ body
              @ [''Compound Volume(cv'' @ fmt_d (VOLUME_ID s + 1) @ '') = {'' @ ids @ ''};'']
              @ tail,
            world := snd (Circle env (vec_add x0 (dot_mv R (0, orad, 0))) irad lcar (dot_mm R Rc)
                              None None (world s))\<rparr>)
     \<and> filter is_volume_statement body = []
     \<and> filter is_volume_statement tail = []
     \<and> length tail \<le> 2"
proof -
  let ?a3 = "add_new (Circle env (vec_add x0 (dot_mv R (0, orad, 0))) irad lcar (dot_mm R Rc) None None)
                (snd (add_comment ''Torus'' (snd (add_comment dashes s))))"
  let ?s3 = "snd ?a3"
  from extrude_steps_effect [of env "dot_mv R (0, 0, 1)" "vec_add (dot_mv R (0, 0, 0)) x0" 3 "nat 3"
      "plane_surface (fst ?a3)" ?s3]
  obtain vols n zs where
    e: "extrude_steps env (dot_mv R (0, 0, 1)) (vec_add (dot_mv R (0, 0, 0)) x0) 3 (nat 3)
          (plane_surface (fst ?a3)) ?s3
       = (Inr vols, ?s3\<lparr>EXTRUDE_ID := n, GMSH_CODE := GMSH_CODE ?s3 @ zs\<rparr>)"
    and z: "list_all extrusion_or_comment zs"
    by blast
  let ?vol = "''cv'' @ fmt_d (VOLUME_ID s + 1)"
  let ?body = "zs @ [?vol @ '' = newv;'']"
  let ?tail = "(if nonempty label
                then [''Physical Volume('' @ [dquote] @ the label @ [dquote] @ '') = '' @ ?vol @ '';'']
                else [])
               @ [''// '' @ dashes @ [newline]]"
  have r: "add_torus_extrude_circle env irad orad lcar R x0 label s
      = (let s4 = ?s3\<lparr>EXTRUDE_ID := n, GMSH_CODE := GMSH_CODE ?s3 @ zs\<rparr>;
             (vol, s5) = add_compound_volume vols s4;
             s6 = (if nonempty label
                   then snd (add_physical_volume env (Name vol) label s5) else s5);
             (u3, s7) = add_comment (dashes @ [newline]) s6
         in (Inr None, s7))"
    unfolding add_torus_extrude_circle_def Let_def split_beta e by simp
  have "add_torus_extrude_circle env irad orad lcar R x0 label s
       = (Inr None,
          s\<lparr>VOLUME_ID := VOLUME_ID s + 1,
            EXTRUDE_ID := EXTRUDE_ID (snd (add_torus_extrude_circle env irad orad lcar R x0 label s)),
            PHYSICALGROUP_ID := PHYSICALGROUP_ID (snd (add_torus_extrude_circle env irad orad lcar R x0 label s)),
            GMSH_CODE := GMSH_CODE s
              @ [''// '' @ dashes, ''// Torus'',
                 code (fst (Circle env (vec_add x0 (dot_mv R (0, orad, 0))) irad lcar (dot_mm R Rc)
                              None None (world s)))]
              @ ?body
              @ [''Compound Volume(cv'' @ fmt_d (VOLUME_ID s + 1) @ '') = {'' @ join '','' (map id' vols) @ ''};'']
              @ ?tail,
            world := snd (Circle env (vec_add x0 (dot_mv R (0, orad, 0))) irad lcar (dot_mm R Rc)
                              None None (world s))\<rparr>)"
    unfolding r
    by (cases label)
       (simp_all add: Let_def split_beta add_compound_volume_def add_physical_volume_def
          new_physical_group_def add_comment_def add_new_def add_def append_def str_handle_def
          nonempty_def)
  moreover have "filter is_volume_statement ?body = []"
    using no_volume_statements [OF z] by (simp add: is_volume_statement_def)
  moreover have "filter is_volume_statement ?tail = []"
    by (simp add: is_volume_statement_def dquote_def)
  moreover have "length ?tail \<le> 2" by simp
  ultimately show ?thesis by blast
qed

text \<open>
  Claim C3 says that a call of \<^verbatim>\<open>add_torus\<close> with the variant \<^verbatim>\<open>extrude_lines\<close> or
  \<^verbatim>\<open>extrude_circle\<close> completes, emits exactly one final volume-defining statement and
  produces exactly one final volume handle. The call does complete, for every inner and
  outer radius; after two comments and the statements of the circle it appends
  statements among which exactly one defines a volume, followed at most by the physical
  group of the label and the closing comment; and \<^verbatim>\<open>_VOLUME_ID\<close> advances by one, to the
  number in the name that statement defines. But the caller gets no handle: with either
  variant the call returns \<^verbatim>\<open>None\<close>, where \<^verbatim>\<open>add_box\<close>, \<^verbatim>\<open>add_ellipsoid\<close> and the pipe
  built by circle extrusion return theirs; \<^verbatim>\<open>add_box\<close> with a volume, called on the same
  session, returns the name of its volume, \<^verbatim>\<open>vol\<close> and the next number.
\<close>

theorem add_torus_returns_no_handle:
  "let c = fst (Circle env (vec_add x0 (dot_mv R (0, orad, 0))) irad lcar (dot_mm R Rc) None None
                 (world s));
       opening = [''// '' @ dashes, ''// Torus'', code c];
       by_lines = add_torus env irad orad lcar R x0 label ''extrude_lines'' s;
       by_circle = add_torus env irad orad lcar R x0 label ''extrude_circle'' s
   in fst by_lines = Inr None \<and> fst by_circle = Inr None
    \<and> fst (fst (add_box env bx0 bx1 by0 by1 bz0 bz1 lcar True holes label s))
        = Some (''vol'' @ fmt_d (VOLUME_ID s + 1))
    \<and> VOLUME_ID (snd by_lines) = VOLUME_ID s + 1
    \<and> VOLUME_ID (snd by_circle) = VOLUME_ID s + 1
    \<and> (\<exists>body tail.
          GMSH_CODE (snd by_lines)
            = GMSH_CODE s @ opening @ body
              @ [''Volume(vol'' @ fmt_d (VOLUME_ID s + 1) @ '') = surfloop''
                   @ fmt_d (SURFACELOOP_ID s + 1) @ '';'']
              @ tail
        \<and> filter is_volume_statement body = []
        \<and> filter is_volume_statement tail = []
        \<and> length tail \<le> 2)
    \<and> (\<exists>body ids tail.
          GMSH_CODE (snd by_circle)
            = GMSH_CODE s @ opening @ body
              @ [''Compound Volume(cv'' @ fmt_d (VOLUME_ID s + 1) @ '') = {'' @ ids @ ''};'']
              @ tail
        \<and> filter is_volume_statement body = []
        \<and> filter is_volume_statement tail = []
        \<and> length tail \<le> 2)"
proof -
  from add_torus_extrude_lines_effect [of env irad orad lcar R x0 label s]
  obtain body tail where
    l: "add_torus_extrude_lines env irad orad lcar R x0 label s
       = (Inr None,
          s\<lparr>SURFACELOOP_ID := SURFACELOOP_ID s + 1,
            VOLUME_ID := VOLUME_ID s + 1,
            EXTRUDE_ID := EXTRUDE_ID (snd (add_torus_extrude_lines env irad orad lcar R x0 label s)),
            PHYSICALGROUP_ID := PHYSICALGROUP_ID (snd (add_torus_extrude_lines env irad orad lcar R x0 label s)),
            GMSH_CODE := GMSH_CODE s
              @ [''// '' @ dashes, ''// Torus'',
                 code (fst (Circle env (vec_add x0 (dot_mv R (0, orad, 0))) irad lcar (dot_mm R Rc)
                              None None (world s)))]
              @ body
              @ [''Volume(vol'' @ fmt_d (VOLUME_ID s + 1) @ '') = surfloop''
                   @ fmt_d (SURFACELOOP_ID s + 1) @ '';'']
              @ tail,
            world := snd (Circle env (vec_add x0 (dot_mv R (0, orad, 0))) irad lcar (dot_mm R Rc)
                              None None (world s))\<rparr>)"
    and lv: "filter is_volume_statement body = []" "filter is_volume_statement tail = []"
      "length tail \<le> 2"
    by blast
  from add_torus_extrude_circle_effect [of env irad orad lcar R x0 label s]
  obtain body' ids tail' where
    c: "add_torus_extrude_circle env irad orad lcar R x0 label s
       = (Inr None,
          s\<lparr>VOLUME_ID := VOLUME_ID s + 1,
            EXTRUDE_ID := EXTRUDE_ID (snd (add_torus_extrude_circle env irad orad lcar R x0 label s)),
            PHYSICALGROUP_ID := PHYSICALGROUP_ID (snd (add_torus_extrude_circle env irad orad lcar R x0 label s)),
            GMSH_CODE := GMSH_CODE s
              @ [''// '' @ dashes, ''// Torus'',
                 code (fst (Circle env (vec_add x0 (dot_mv R (0, orad, 0))) irad lcar (dot_mm R Rc)
                              None None (world s)))]
              @ body'
              @ [''Compound Volume(cv'' @ fmt_d (VOLUME_ID s + 1) @ '') = {'' @ ids @ ''};'']
              @ tail',
            world := snd (Circle env (vec_add x0 (dot_mv R (0, orad, 0))) irad lcar (dot_mm R Rc)
                              None None (world s))\<rparr>)"
    and cv: "filter is_volume_statement body' = []" "filter is_volume_statement tail' = []"
      "length tail' \<le> 2"
    by blast
  have fl: "fst (add_torus_extrude_lines env irad orad lcar R x0 label s) = Inr None"
    and vl: "VOLUME_ID (snd (add_torus_extrude_lines env irad orad lcar R x0 label s)) = VOLUME_ID s + 1"
    and gl: "GMSH_CODE (snd (add_torus_extrude_lines env irad orad lcar R x0 label s))
        = GMSH_CODE s
              @ [''// '' @ dashes, ''// Torus'',
                 code (fst (Circle env (vec_add x0 (dot_mv R (0, orad, 0))) irad lcar (dot_mm R Rc)
                              None None (world s)))]
              @ body
              @ [''Volume(vol'' @ fmt_d (VOLUME_ID s + 1) @ '') = surfloop''
                   @ fmt_d (SURFACELOOP_ID s + 1) @ '';'']
              @ tail"
    by (subst l, simp)+
  have fc: "fst (add_torus_extrude_circle env irad orad lcar R x0 label s) = Inr None"
    and vc: "VOLUME_ID (snd (add_torus_extrude_circle env irad orad lcar R x0 label s)) = VOLUME_ID s + 1"
    and gc: "GMSH_CODE (snd (add_torus_extrude_circle env irad orad lcar R x0 label s))
        = GMSH_CODE s
              @ [''// '' @ dashes, ''// Torus'',
                 code (fst (Circle env (vec_add x0 (dot_mv R (0, orad, 0))) irad lcar (dot_mm R Rc)
                              None None (world s)))]
              @ body'
              @ [''Compound Volume(cv'' @ fmt_d (VOLUME_ID s + 1) @ '') = {'' @ ids @ ''};'']
              @ tail'"
    by (subst c, simp)+
  have t: "add_torus env irad orad lcar R x0 label ''extrude_lines'' s
             = add_torus_extrude_lines env irad orad lcar R x0 label s"
    "add_torus env irad orad lcar R x0 label ''extrude_circle'' s
             = add_torus_extrude_circle env irad orad lcar R x0 label s"
    by (simp_all add: add_torus_def)
  have bx: "fst (fst (add_box env bx0 bx1 by0 by1 bz0 bz1 lcar True holes label s))
        = Some (''vol'' @ fmt_d (VOLUME_ID s + 1))"
    by (simp add: add_box_def Let_def split_beta add_all_counters for_each_ruled_counters
          add_surface_loop_def add_array_def add_volume_def append_def)
  show ?thesis
    unfolding Let_def t
    using fl vl gl lv fc vc gc cv bx by blast
qed

end
